theory Spec2Isabelle
  imports Complex_Main "HOL-Library.AList"
begin

section \<open>Conversion technology CONV3: constraints emitted for the optimisation model\<close>

text \<open>
  The class \<open>Conv3\<close> of \<open>conv3.py\<close> turns the data of a technology into algebraic
  constraints and disjunctions of an optimisation block. The embedding keeps the emitted
  constraints as syntax (expressions over the decision variables) and gives them their
  meaning by evaluation under an assignment of the variables.

  Python floats are read as real numbers and Python integers as \<open>int\<close>; what is stated
  about numbers does not depend on how the floating-point operations round. A dictionary
  whose iteration order matters is an association list; list indexing, dictionary lookup
  and division raise as in Python. The decision variables themselves are declared by
  the base class \<open>Technology\<close>, which is not part of this development: indexing a
  variable is recorded symbolically and not checked against an index set.
\<close>

subsection \<open>Errors\<close>

datatype error =
    Exception string
  | KeyError
  | IndexError
  | ZeroDivisionError
  | UnboundLocalError
  | TypeError

definition bind_err :: "error + 'a \<Rightarrow> ('a \<Rightarrow> error + 'b) \<Rightarrow> error + 'b" where
  "bind_err m f = (case m of Inl e \<Rightarrow> Inl e | Inr x \<Rightarrow> f x)"

fun mapM :: "('a \<Rightarrow> error + 'b) \<Rightarrow> 'a list \<Rightarrow> error + 'b list" where
  "mapM f [] = Inr []"
| "mapM f (x # xs) =
     bind_err (f x) (\<lambda>y. bind_err (mapM f xs) (\<lambda>ys. Inr (y # ys)))"

text \<open>Dictionary lookup \<open>d[k]\<close> and list indexing \<open>xs[i]\<close> (negative indices count from the end).\<close>

definition lookup :: "('k \<times> 'v) list \<Rightarrow> 'k \<Rightarrow> error + 'v" where
  "lookup d k = (case map_of d k of None \<Rightarrow> Inl KeyError | Some v \<Rightarrow> Inr v)"

definition py_index :: "'a list \<Rightarrow> int \<Rightarrow> error + 'a" where
  "py_index xs i =
     (if 0 \<le> i \<and> i < int (length xs) then Inr (xs ! nat i)
      else if i < 0 \<and> - int (length xs) \<le> i then Inr (xs ! nat (int (length xs) + i))
      else Inl IndexError)"

text \<open>\<open>range(a, b)\<close> is \<open>[a..b - 1]\<close>.\<close>

definition py_range :: "int \<Rightarrow> int \<Rightarrow> int list" where
  "py_range a b = [a..b - 1]"

subsection \<open>Variables, expressions, constraints\<close>

type_synonym carrier = string

datatype var =
    Input int carrier
  | Output int carrier
  | Var_size
  | Var_x int
  | Var_y int
  | Var_z int
  | Var_input_rr_full int carrier

datatype expr =
    Num real
  | V var
  | Neg expr
  | Add expr expr
  | Sub expr expr
  | Mul expr expr
  | Div expr expr

datatype constr =
    Eq expr expr
  | Le expr expr
  | Ge expr expr

type_synonym assignment = "var \<Rightarrow> real"

fun evalE :: "assignment \<Rightarrow> expr \<Rightarrow> real" where
  "evalE \<rho> (Num r) = r"
| "evalE \<rho> (V v) = \<rho> v"
| "evalE \<rho> (Neg a) = - evalE \<rho> a"
| "evalE \<rho> (Add a b) = evalE \<rho> a + evalE \<rho> b"
| "evalE \<rho> (Sub a b) = evalE \<rho> a - evalE \<rho> b"
| "evalE \<rho> (Mul a b) = evalE \<rho> a * evalE \<rho> b"
| "evalE \<rho> (Div a b) = evalE \<rho> a / evalE \<rho> b"

fun holds :: "assignment \<Rightarrow> constr \<Rightarrow> bool" where
  "holds \<rho> (Eq a b) = (evalE \<rho> a = evalE \<rho> b)"
| "holds \<rho> (Le a b) = (evalE \<rho> a \<le> evalE \<rho> b)"
| "holds \<rho> (Ge a b) = (evalE \<rho> a \<ge> evalE \<rho> b)"

definition sat_all :: "assignment \<Rightarrow> constr list \<Rightarrow> bool" where
  "sat_all \<rho> cs = list_all (holds \<rho>) cs"

subsection \<open>Indexed constraints and disjunctions\<close>

text \<open>
  \<open>pyo.Constraint(index, rule=r)\<close> calls the rule at every index, in order; a rule returns a
  constraint or \<open>Constraint.Skip\<close>, and an exception raised by a rule aborts construction.
\<close>

definition emit :: "constr \<Rightarrow> error + constr option" where
  "emit c = Inr (Some c)"

definition Skip :: "error + constr option" where
  "Skip = Inr None"

definition pyo_Constraint :: "'i list \<Rightarrow> ('i \<Rightarrow> error + constr option) \<Rightarrow> error + constr list" where
  "pyo_Constraint index rule = bind_err (mapM rule index) (\<lambda>rs. Inr (List.map_filter id rs))"

text \<open>
  \<open>gdp.Disjunct(set_t, s_indicators, rule=r)\<close> builds one block of constraints for every
  time step and indicator; \<open>gdp.Disjunction(set_t, rule=bind)\<close> then binds, for every time
  step, the disjuncts of all indicators into one disjunction. The model keeps the bound
  form: for each time step the list of its disjuncts, each with its indicator.
\<close>

type_synonym disjunct = "int \<times> constr list"
type_synonym disjunction = "int \<times> disjunct list"

definition gdp_Disjunct ::
  "int list \<Rightarrow> int list \<Rightarrow> (int \<Rightarrow> int \<Rightarrow> error + constr list) \<Rightarrow> error + disjunction list" where
  "gdp_Disjunct set_t s_indicators rule =
     mapM (\<lambda>t. bind_err (mapM (\<lambda>ind. bind_err (rule t ind) (\<lambda>d. Inr (ind, d))) s_indicators)
                 (\<lambda>ds. Inr (t, ds))) set_t"

text \<open>A disjunction holds when the constraints of one of its disjuncts hold.\<close>

definition sat_disjunction :: "assignment \<Rightarrow> disjunction \<Rightarrow> bool" where
  "sat_disjunction \<rho> dj = list_ex (\<lambda>d. sat_all \<rho> (snd d)) (snd dj)"

definition sat_disjunctions :: "assignment \<Rightarrow> disjunction list \<Rightarrow> bool" where
  "sat_disjunctions \<rho> djs = list_all (sat_disjunction \<rho>) djs"

subsection \<open>The technology and the optimisation block\<close>

datatype fitting_class =
    FitGenericTecTypeType1
  | FitGenericTecTypeType2
  | FitGenericTecTypeType34

text \<open>
  The fitted coefficients \<open>coeff_ti["fit"]\<close>, one entry per output carrier in the order of
  the dictionary: \<open>alpha1\<close> for type 1, \<open>alpha1\<close> and \<open>alpha2\<close> for type 2, and the
  breakpoints \<open>bp_x\<close> with the lists \<open>alpha1\<close> and \<open>alpha2\<close> for types 3 and 4.
\<close>

record fit34 =
  bp_x :: "real list"
  alpha1 :: "real list"
  alpha2 :: "real list"

datatype fit =
    Fit1 "(carrier \<times> real) list"
  | Fit2 "(carrier \<times> real \<times> real) list"
  | Fit34 "(carrier \<times> fit34) list"

text \<open>
  The fields of the technology that \<open>conv3.py\<close> reads. The options, the coefficients, the
  dynamics and the time steps are filled by the base class; \<open>None\<close> in \<open>dynamics\<close> is a key
  that is absent, and \<open>None\<close> as standby carrier is the value \<open>-1\<close>. The field
  \<open>calculate_input_bounds_full\<close> is what \<open>fitting_class.calculate_input_bounds\<close> returns
  for the full time steps: per carrier, one row of lower and upper bound per time step.
\<close>

record component_options =
  performance_function_type :: int
  size_based_on :: string
  emissions_based_on :: string
  main_input_carrier :: carrier
  standby_power_carrier :: "carrier option"

record time_independent =
  fit :: fit
  phi :: "(carrier \<times> real) list"
  min_part_load :: real
  standby_power :: real
  size_max :: real
  ti_rated_power :: real

record dynamics =
  ramping_time :: "real option"
  ref_size :: "real option"
  ramping_const_int :: "int option"
  SU_time :: "int option"
  SD_time :: "int option"

record tec =
  component_options :: component_options
  fitting_class :: "fitting_class option"
  time_independent :: time_independent
  dynamics :: dynamics
  rated_power :: real
  input_ratios :: "(carrier \<times> real) list"
  set_t_performance :: "int list"
  set_t_full :: "int list"
  sequence :: "(int \<times> int) list"
  calculate_input_bounds_full :: "(carrier \<times> (real \<times> real) list) list"

text \<open>
  The block: the sets of carriers, the variables declared by \<open>conv3.py\<close> with their
  bounds, and one field for every constraint and disjunction that \<open>conv3.py\<close> adds. A
  component that was not added is the empty list.
\<close>

record var_decl =
  lower :: real
  upper :: real

record b_tec =
  set_input_carriers :: "carrier list"
  set_output_carriers :: "carrier list"
  var_x :: "(int list \<times> var_decl) option"
  var_input_rr_full :: "((int \<times> carrier) \<times> var_decl) list"
  const_input_output :: "constr list"
  const_min_part_load :: "constr list"
  dis_input_output :: "disjunction list"
  dis_SUSD_trajectory :: "disjunction list"
  const_input_input :: "constr list"
  dis_input_input :: "disjunction list"
  const_size :: "constr list"
  dis_ramping_operation_on :: "disjunction list"
  const_link_full_resolution_rr :: "constr list"
  const_ramping_down_rate :: "constr list"
  const_ramping_up_rate :: "constr list"

text \<open>
  An assignment satisfies the block when it satisfies every constraint outside the
  disjunctions, every disjunction, and the domain and bounds of the variables the block
  declares (\<open>NonNegativeReals\<close> with bounds).
\<close>

definition sat_bounds :: "assignment \<Rightarrow> var \<Rightarrow> var_decl \<Rightarrow> bool" where
  "sat_bounds \<rho> v d = (0 \<le> \<rho> v \<and> lower d \<le> \<rho> v \<and> \<rho> v \<le> upper d)"

definition sat_var_x :: "assignment \<Rightarrow> (int list \<times> var_decl) option \<Rightarrow> bool" where
  "sat_var_x \<rho> decl =
     (case decl of None \<Rightarrow> True
      | Some (index, d) \<Rightarrow> list_all (\<lambda>t. sat_bounds \<rho> (Var_x t) d) index)"

definition sat_var_input_rr_full :: "assignment \<Rightarrow> ((int \<times> carrier) \<times> var_decl) list \<Rightarrow> bool" where
  "sat_var_input_rr_full \<rho> decls =
     list_all (\<lambda>((t, car), d). sat_bounds \<rho> (Var_input_rr_full t car) d) decls"

definition sat_block :: "assignment \<Rightarrow> b_tec \<Rightarrow> bool" where
  "sat_block \<rho> b =
     (sat_var_x \<rho> (var_x b) \<and>
      sat_var_input_rr_full \<rho> (var_input_rr_full b) \<and>
      sat_all \<rho> (const_input_output b) \<and>
      sat_all \<rho> (const_min_part_load b) \<and>
      sat_disjunctions \<rho> (dis_input_output b) \<and>
      sat_disjunctions \<rho> (dis_SUSD_trajectory b) \<and>
      sat_all \<rho> (const_input_input b) \<and>
      sat_disjunctions \<rho> (dis_input_input b) \<and>
      sat_all \<rho> (const_size b) \<and>
      sat_disjunctions \<rho> (dis_ramping_operation_on b) \<and>
      sat_all \<rho> (const_link_full_resolution_rr b) \<and>
      sat_all \<rho> (const_ramping_down_rate b) \<and>
      sat_all \<rho> (const_ramping_up_rate b))"


subsection \<open>Constructor and fitting\<close>

text \<open>
  \<open>Conv3.__init__\<close>, after the constructor of the base class has filled the options from
  the technology data. The second argument is \<open>tec_data["Performance"]["main_input_carrier"]\<close>,
  \<open>None\<close> when the key is missing.
\<close>

definition unsupported_function_type :: error where
  "unsupported_function_type =
     Exception ''performance_function_type must be an integer between 1 and 4''"

definition Conv3_init :: "tec \<Rightarrow> carrier option \<Rightarrow> error + tec" where
  "Conv3_init self tec_data_main_input_carrier =
     bind_err (case tec_data_main_input_carrier of None \<Rightarrow> Inl KeyError | Some car \<Rightarrow> Inr car)
       (\<lambda>main.
          let co = (component_options self)
                     \<lparr>size_based_on := ''input'', emissions_based_on := ''input'',
                      main_input_carrier := main\<rparr>;
              self = self\<lparr>component_options := co\<rparr>
          in if performance_function_type co = 1
               then Inr (self\<lparr>fitting_class := Some FitGenericTecTypeType1\<rparr>)
             else if performance_function_type co = 2
               then Inr (self\<lparr>fitting_class := Some FitGenericTecTypeType2\<rparr>)
             else if performance_function_type co = 3 \<or> performance_function_type co = 4
               then Inr (self\<lparr>fitting_class := Some FitGenericTecTypeType34\<rparr>)
             else Inl unsupported_function_type)"




subsection \<open>Performance function type 1: linear through the origin\<close>

text \<open>
  The dictionaries \<open>alpha1\<close> and \<open>alpha2\<close> that the performance functions build from
  \<open>coeff_ti["fit"]\<close>. The fit has the shape of the fitting class that the constructor chose
  for the type. For completeness the other shapes are errors: a fit without the key that
  is read raises \<open>KeyError\<close>, and a list of coefficients used as a number raises
  \<open>TypeError\<close>.
\<close>

definition fit_alpha1 :: "fit \<Rightarrow> error + (carrier \<times> real) list" where
  "fit_alpha1 f =
     (case f of
        Fit1 d \<Rightarrow> Inr d
      | Fit2 d \<Rightarrow> Inr (map (\<lambda>(car, a1, a2). (car, a1)) d)
      | Fit34 d \<Rightarrow> (if d = [] then Inr [] else Inl TypeError))"

definition fit_alpha12 :: "fit \<Rightarrow> error + (carrier \<times> real \<times> real) list" where
  "fit_alpha12 f =
     (case f of
        Fit1 d \<Rightarrow> (if d = [] then Inr [] else Inl KeyError)
      | Fit2 d \<Rightarrow> Inr d
      | Fit34 d \<Rightarrow> (if d = [] then Inr [] else Inl TypeError))"

definition fit_piecewise :: "fit \<Rightarrow> error + (carrier \<times> fit34) list" where
  "fit_piecewise f =
     (case f of
        Fit1 d \<Rightarrow> (if d = [] then Inr [] else Inl KeyError)
      | Fit2 d \<Rightarrow> (if d = [] then Inr [] else Inl KeyError)
      | Fit34 d \<Rightarrow> Inr d)"

definition performance_function_type_1 :: "tec \<Rightarrow> b_tec \<Rightarrow> error + b_tec" where
  "performance_function_type_1 self b =
     (let main = main_input_carrier (component_options self);
          coeff_ti = time_independent self
      in bind_err (fit_alpha1 (fit coeff_ti)) (\<lambda>alpha1.
         bind_err (pyo_Constraint (List.product (set_t_performance self) (set_output_carriers b))
                     (\<lambda>(t, car_output). bind_err (lookup alpha1 car_output) (\<lambda>a1.
                        emit (Eq (V (Output t car_output)) (Mul (Num a1) (V (Input t main)))))))
           (\<lambda>cs.
         let b = b\<lparr>const_input_output := cs\<rparr>
         in if min_part_load coeff_ti > 0
            then bind_err (pyo_Constraint (set_t_performance self)
                             (\<lambda>t. emit (Le (Mul (Mul (Num (min_part_load coeff_ti)) (V Var_size))
                                               (Num (rated_power self)))
                                          (V (Input t main)))))
                   (\<lambda>cs'. Inr (b\<lparr>const_min_part_load := cs'\<rparr>))
            else Inr b)))"

subsection \<open>Performance function types 2 and 3: off or on\<close>

definition car_standby_power :: "tec \<Rightarrow> carrier" where
  "car_standby_power self =
     (case standby_power_carrier (component_options self) of
        None \<Rightarrow> main_input_carrier (component_options self)
      | Some car \<Rightarrow> car)"

text \<open>
  The variable \<open>var_x\<close> is declared over the performance time steps, as a non-negative real
  with bounds \<open>(0, 1)\<close>, unless the block already has it. The warnings that types 2 and 4
  print for a configuration that makes little sense do not change what is built and are
  left out.
\<close>

definition declare_var_x :: "tec \<Rightarrow> b_tec \<Rightarrow> b_tec" where
  "declare_var_x self b =
     (case var_x b of
        None \<Rightarrow> b\<lparr>var_x := Some (set_t_performance self, \<lparr>lower = 0, upper = 1\<rparr>)\<rparr>
      | Some d \<Rightarrow> b)"

text \<open>The constraints of the off disjunct on the inputs and the outputs (types 2 and 3).\<close>

definition init_input_off :: "int \<Rightarrow> carrier \<Rightarrow> error + constr option" where
  "init_input_off t car_input = emit (Eq (V (Input t car_input)) (Num 0))"

definition init_standby_power :: "tec \<Rightarrow> int \<Rightarrow> carrier \<Rightarrow> error + constr option" where
  "init_standby_power self t car_input =
     (if car_input = main_input_carrier (component_options self)
      then emit (Eq (V (Input t (car_standby_power self)))
                   (Mul (Mul (Num (standby_power (time_independent self))) (V Var_size))
                      (Num (rated_power self))))
      else emit (Eq (V (Input t car_input)) (Num 0)))"

definition init_output_off :: "int \<Rightarrow> carrier \<Rightarrow> error + constr option" where
  "init_output_off t car_output = emit (Eq (V (Output t car_output)) (Num 0))"

definition disjunct_off :: "tec \<Rightarrow> b_tec \<Rightarrow> int \<Rightarrow> error + constr list" where
  "disjunct_off self b t =
     bind_err (if standby_power (time_independent self) = - 1
               then pyo_Constraint (set_input_carriers b) (init_input_off t)
               else pyo_Constraint (set_input_carriers b) (init_standby_power self t))
       (\<lambda>const_input.
     bind_err (pyo_Constraint (set_output_carriers b) (init_output_off t))
       (\<lambda>const_output_off.
     Inr (Eq (V (Var_x t)) (Num 0) # const_input @ const_output_off)))"

definition init_min_partload :: "tec \<Rightarrow> int \<Rightarrow> constr" where
  "init_min_partload self t =
     Ge (V (Input t (main_input_carrier (component_options self))))
        (Mul (Mul (Num (min_part_load (time_independent self))) (V Var_size))
           (Num (rated_power self)))"

definition init_input_output_2 ::
  "tec \<Rightarrow> b_tec \<Rightarrow> (carrier \<times> real \<times> real) list \<Rightarrow> int \<Rightarrow> int \<Rightarrow> error + constr list" where
  "init_input_output_2 self b alpha t ind =
     (if ind = 0 then disjunct_off self b t
      else
        bind_err (pyo_Constraint (set_output_carriers b)
                    (\<lambda>car_output. bind_err (lookup alpha car_output) (\<lambda>(a1, a2).
                       emit (Eq (V (Output t car_output))
                               (Add (Mul (Num a1)
                                       (V (Input t (main_input_carrier (component_options self)))))
                                    (Mul (Mul (Num a2) (V Var_size)) (Num (rated_power self))))))))
          (\<lambda>const_input_output_on.
        Inr (Eq (V (Var_x t)) (Num 1) # const_input_output_on @ [init_min_partload self t])))"

definition performance_function_type_2 :: "tec \<Rightarrow> b_tec \<Rightarrow> error + b_tec" where
  "performance_function_type_2 self b =
     bind_err (fit_alpha12 (fit (time_independent self))) (\<lambda>alpha.
       let b = declare_var_x self b;
           s_indicators = py_range 0 2
       in bind_err (gdp_Disjunct (set_t_performance self) s_indicators
                      (init_input_output_2 self b alpha))
            (\<lambda>ds. Inr (b\<lparr>dis_input_output := ds\<rparr>)))"

text \<open>
  Type 3: \<open>bp_x\<close> is the list of breakpoints of the last carrier of the fit; indicator 0 is
  the off disjunct, indicator \<open>ind > 0\<close> the segment between \<open>bp_x[ind - 1]\<close> and \<open>bp_x[ind]\<close>.
\<close>

definition fit_bp_x :: "(carrier \<times> fit34) list \<Rightarrow> error + real list" where
  "fit_bp_x d = (if d = [] then Inl UnboundLocalError else Inr (bp_x (snd (last d))))"

definition segment_on ::
  "tec \<Rightarrow> b_tec \<Rightarrow> (carrier \<times> fit34) list \<Rightarrow> real list \<Rightarrow> int \<Rightarrow> int \<Rightarrow> error + constr list" where
  "segment_on self b d bp t ind =
     (let main = main_input_carrier (component_options self);
          rp = rated_power self
      in bind_err (py_index bp (ind - 1)) (\<lambda>bp_lo.
         bind_err (py_index bp ind) (\<lambda>bp_hi.
         bind_err (pyo_Constraint (set_output_carriers b)
                     (\<lambda>car_output.
                        bind_err (lookup d car_output) (\<lambda>f.
                        bind_err (py_index (alpha1 f) (ind - 1)) (\<lambda>a1.
                        bind_err (py_index (alpha2 f) (ind - 1)) (\<lambda>a2.
                          emit (Eq (V (Output t car_output))
                                  (Add (Mul (Num a1) (V (Input t main)))
                                       (Mul (Mul (Num a2) (V Var_size)) (Num rp)))))))))
           (\<lambda>const_input_output_on.
         Inr (Eq (V (Var_x t)) (Num 1)
              # Ge (V (Input t main)) (Mul (Mul (Num bp_lo) (V Var_size)) (Num rp))
              # Le (V (Input t main)) (Mul (Mul (Num bp_hi) (V Var_size)) (Num rp))
              # const_input_output_on @ [init_min_partload self t])))))"

definition init_input_output_3 ::
  "tec \<Rightarrow> b_tec \<Rightarrow> (carrier \<times> fit34) list \<Rightarrow> real list \<Rightarrow> int \<Rightarrow> int \<Rightarrow> error + constr list" where
  "init_input_output_3 self b d bp t ind =
     (if ind = 0 then disjunct_off self b t else segment_on self b d bp t ind)"

definition performance_function_type_3 :: "tec \<Rightarrow> b_tec \<Rightarrow> error + b_tec" where
  "performance_function_type_3 self b =
     bind_err (fit_piecewise (fit (time_independent self))) (\<lambda>d.
       let b = declare_var_x self b
       in bind_err (fit_bp_x d) (\<lambda>bp.
          let s_indicators = py_range 0 (int (length bp))
          in bind_err (gdp_Disjunct (set_t_performance self) s_indicators
                         (init_input_output_3 self b d bp))
               (\<lambda>ds. Inr (b\<lparr>dis_input_output := ds\<rparr>))))"


subsection \<open>Performance function type 4: start-up and shut-down trajectories\<close>

definition adjust_SU_SD :: "int \<Rightarrow> int \<Rightarrow> int \<times> int" where
  "adjust_SU_SD su sd =
     (if su \<le> 0 \<and> sd \<le> 0 then (su, sd)
      else if su < 0 then (0, sd)
      else if sd < 0 then (su, 0)
      else (su, sd))"

text \<open>
  The trajectories exist only for a positive number of steps. The source computes them in
  floating point; here the same expressions are read over the reals, which agrees with the
  source on the shape of the lists and on the order of their values up to ties, and not
  on properties that rounding can break.
\<close>

definition SU_trajectory :: "real \<Rightarrow> int \<Rightarrow> real list option" where
  "SU_trajectory mpl su =
     (if su > 0
      then Some (map (\<lambda>i. (mpl / (of_int su + 1)) * of_int i) (py_range 1 (su + 1)))
      else None)"

definition SD_trajectory :: "real \<Rightarrow> int \<Rightarrow> real list option" where
  "SD_trajectory mpl sd =
     (if sd > 0
      then Some (rev (sort (map (\<lambda>i. (mpl / (of_int sd + 1)) * of_int i) (py_range 1 (sd + 1)))))
      else None)"

definition trajectory_at :: "real list option \<Rightarrow> int \<Rightarrow> error + real" where
  "trajectory_at traj i =
     (case traj of None \<Rightarrow> Inl UnboundLocalError | Some xs \<Rightarrow> py_index xs i)"

text \<open>
  The index of \<open>var_y\<close> and \<open>var_z\<close> that the disjunct of time step \<open>t\<close> refers to at
  offset \<open>i\<close> of the start-up window and at offset \<open>j\<close> of the shut-down window, wrapping
  around the full series of length \<open>n\<close>.
\<close>

definition index_SU :: "int \<Rightarrow> int \<Rightarrow> int \<Rightarrow> int \<Rightarrow> int" where
  "index_SU n su t i =
     (if t < n - su \<or> i > su - (n - t) then t - i + su + 1 else (t - i + su + 1) - n)"

definition index_SD :: "int \<Rightarrow> int \<Rightarrow> int \<Rightarrow> int" where
  "index_SD n t j = (if j \<le> t then t - j + 1 else n + (t - j + 1))"

definition output_first_segment ::
  "tec \<Rightarrow> b_tec \<Rightarrow> (carrier \<times> fit34) list \<Rightarrow> int \<Rightarrow> error + constr list" where
  "output_first_segment self b d t =
     pyo_Constraint (set_output_carriers b)
       (\<lambda>car_output.
          bind_err (lookup d car_output) (\<lambda>f.
          bind_err (py_index (alpha1 f) 0) (\<lambda>a1.
          bind_err (py_index (alpha2 f) 0) (\<lambda>a2.
            emit (Eq (V (Output t car_output))
                    (Add (Mul (Num a1) (V (Input t (main_input_carrier (component_options self)))))
                         (Mul (Mul (Num a2) (V Var_size)) (Num (rated_power self)))))))))"

definition init_SUSD_trajectories ::
  "tec \<Rightarrow> b_tec \<Rightarrow> (carrier \<times> fit34) list \<Rightarrow> real list \<Rightarrow> int \<Rightarrow> int \<Rightarrow> int \<Rightarrow> int
     \<Rightarrow> error + constr list" where
  "init_SUSD_trajectories self b d bp su sd t ind =
     (let main = main_input_carrier (component_options self);
          mpl = min_part_load (time_independent self);
          n = int (length (set_t_full self))
      in
      if ind = 0 then
        bind_err (pyo_Constraint (py_range 1 (su + 1))
                    (\<lambda>i. emit (Eq (V (Var_y (index_SU n su t i))) (Num 0)))) (\<lambda>const_y_off.
        bind_err (pyo_Constraint (py_range 1 (sd + 1))
                    (\<lambda>j. emit (Eq (V (Var_z (index_SD n t j))) (Num 0)))) (\<lambda>const_z_off.
        bind_err (pyo_Constraint (set_input_carriers b) (init_input_off t)) (\<lambda>const_input_off.
        bind_err (pyo_Constraint (set_output_carriers b) (init_output_off t)) (\<lambda>const_output_off.
        Inr (Eq (V (Var_x t)) (Num 0)
             # const_y_off @ const_z_off @ const_input_off @ const_output_off)))))
      else if 1 \<le> ind \<and> ind < su + 1 then
        bind_err (trajectory_at (SU_trajectory mpl su) (ind - 1)) (\<lambda>level.
        bind_err (output_first_segment self b d t) (\<lambda>const_output_SU.
        Inr (Eq (V (Var_x t)) (Num 0)
             # Eq (V (Var_y (index_SU n su t ind))) (Num 1)
             # Eq (V (Var_z (index_SU n su t ind))) (Num 0)
             # Eq (V (Input t main)) (Mul (V Var_size) (Num level))
             # const_output_SU)))
      else if su + 1 \<le> ind \<and> ind < su + sd + 1 then
        (let ind_SD = ind - su
         in bind_err (trajectory_at (SD_trajectory mpl sd) (ind_SD - 1)) (\<lambda>level.
            bind_err (output_first_segment self b d t) (\<lambda>const_output_SD.
            Inr (Eq (V (Var_x t)) (Num 0)
                 # Eq (V (Var_z (index_SD n t ind_SD))) (Num 1)
                 # Eq (V (Var_y (index_SD n t ind_SD))) (Num 0)
                 # Eq (V (Input t main)) (Mul (V Var_size) (Num level))
                 # const_output_SD))))
      else if ind > su + sd then segment_on self b d bp t (ind - (su + sd))
      else Inr [])"

definition dynamics_key :: "'a option \<Rightarrow> error + 'a" where
  "dynamics_key v = (case v of None \<Rightarrow> Inl KeyError | Some x \<Rightarrow> Inr x)"

definition performance_function_type_4 :: "tec \<Rightarrow> b_tec \<Rightarrow> error + b_tec" where
  "performance_function_type_4 self b =
     bind_err (fit_piecewise (fit (time_independent self))) (\<lambda>d.
     bind_err (dynamics_key (SU_time (dynamics self))) (\<lambda>su0.
     bind_err (dynamics_key (SD_time (dynamics self))) (\<lambda>sd0.
       let su = fst (adjust_SU_SD su0 sd0);
           sd = snd (adjust_SU_SD su0 sd0)
       in bind_err (fit_bp_x d) (\<lambda>bp.
          let s_indicators = py_range 0 (su + sd + int (length bp))
          in bind_err (gdp_Disjunct (set_t_full self) s_indicators
                         (init_SUSD_trajectories self b d bp su sd))
               (\<lambda>ds. Inr (b\<lparr>dis_SUSD_trajectory := ds\<rparr>))))))"

subsection \<open>Ramping rates\<close>

record data =
  typicaldays_N :: int
  typicaldays_method :: int
  k_means_sequence :: "(int \<times> int) list"

text \<open>
  Modelled from the spec: the utility \<open>link_full_resolution_to_clustered\<close> is imported by
  \<open>conv3.py\<close> and its code is missing. By the specification it emits, for every full time
  step and every carrier, the equality of the full-resolution variable with the variable
  of the representative period that \<open>sequence\<close> gives for that step.
\<close>

definition link_full_resolution_to_clustered ::
  "(int \<Rightarrow> carrier \<Rightarrow> var) \<Rightarrow> (int \<Rightarrow> carrier \<Rightarrow> var) \<Rightarrow> int list \<Rightarrow> (int \<times> int) list
     \<Rightarrow> carrier list \<Rightarrow> error + constr list" where
  "link_full_resolution_to_clustered var_clustered var_full set_t sequ cars =
     pyo_Constraint (List.product set_t cars)
       (\<lambda>(t, car). bind_err (lookup sequ t) (\<lambda>k.
          emit (Eq (V (var_full t car)) (V (var_clustered k car)))))"

definition ramping_rate :: "tec \<Rightarrow> real \<Rightarrow> error + expr" where
  "ramping_rate self rt =
     (case ref_size (dynamics self) of
        Some r \<Rightarrow>
          (if r \<noteq> - 1
           then (if rt = 0 then Inl ZeroDivisionError else Inr (Num (r / rt)))
           else (if rt = 0 then Inl ZeroDivisionError else Inr (Div (V Var_size) (Num rt))))
      | None \<Rightarrow> (if rt = 0 then Inl ZeroDivisionError else Inr (Div (V Var_size) (Num rt))))"

definition init_ramping_operation_on :: "tec \<Rightarrow> expr \<Rightarrow> int \<Rightarrow> int \<Rightarrow> error + constr list" where
  "init_ramping_operation_on self rr t ind =
     (let main = main_input_carrier (component_options self)
      in if t > 1 then
           (if ind = 0 then
              Inr [Eq (Sub (V (Var_x t)) (V (Var_x (t - 1)))) (Num 0),
                   Le (Neg rr) (Sub (V (Input t main)) (V (Input (t - 1) main))),
                   Le (Sub (V (Input t main)) (V (Input (t - 1) main))) rr]
            else if ind = 1 then
              Inr [Eq (Sub (V (Var_x t)) (V (Var_x (t - 1)))) (Num 1)]
            else
              Inr [Eq (Sub (V (Var_x t)) (V (Var_x (t - 1)))) (Num (- 1))])
         else Inr [])"

definition init_ramping_down_rate ::
  "(int \<Rightarrow> carrier \<Rightarrow> var) \<Rightarrow> carrier \<Rightarrow> expr \<Rightarrow> int \<Rightarrow> error + constr option" where
  "init_ramping_down_rate input_aux_rr main rr t =
     (if t > 1
      then emit (Le (Neg rr) (Sub (V (input_aux_rr t main)) (V (input_aux_rr (t - 1) main))))
      else Skip)"

definition init_ramping_up_rate ::
  "(int \<Rightarrow> carrier \<Rightarrow> var) \<Rightarrow> carrier \<Rightarrow> expr \<Rightarrow> int \<Rightarrow> error + constr option" where
  "init_ramping_up_rate input_aux_rr main rr t =
     (if t > 1
      then emit (Le (Sub (V (input_aux_rr t main)) (V (input_aux_rr (t - 1) main))) rr)
      else Skip)"

definition init_input_bounds :: "tec \<Rightarrow> int \<times> carrier \<Rightarrow> error + ((int \<times> carrier) \<times> var_decl)" where
  "init_input_bounds self = (\<lambda>(t, car).
     bind_err (lookup (calculate_input_bounds_full self) car) (\<lambda>rows.
     bind_err (py_index rows (t - 1)) (\<lambda>(lb, ub).
       let k = size_max (time_independent self) * ti_rated_power (time_independent self)
       in Inr ((t, car), \<lparr>lower = lb * k, upper = ub * k\<rparr>))))"

text \<open>
  The series the unconditional ramping constraints are written on: the input itself
  without typical days, and otherwise a new full-resolution input linked to the input of
  the representative periods.
\<close>

definition ramping_series ::
  "tec \<Rightarrow> b_tec \<Rightarrow> data \<Rightarrow> error + (b_tec \<times> (int \<Rightarrow> carrier \<Rightarrow> var) \<times> int list)" where
  "ramping_series self b dat =
     (if typicaldays_N dat = 0 then Inr (b, Input, set_t_performance self)
      else
        bind_err (mapM (init_input_bounds self)
                    (List.product (set_t_full self) (set_input_carriers b))) (\<lambda>decls.
        bind_err (if typicaldays_method dat = 1 then Inr (k_means_sequence dat)
                  else if typicaldays_method dat = 2 then Inr (sequence self)
                  else Inl UnboundLocalError) (\<lambda>sequ.
        bind_err (link_full_resolution_to_clustered Input Var_input_rr_full
                    (set_t_full self) sequ (set_input_carriers b)) (\<lambda>link.
        Inr (b\<lparr>var_input_rr_full := decls, const_link_full_resolution_rr := link\<rparr>,
             Var_input_rr_full, set_t_full self)))))"

definition integer_coupled :: "tec \<Rightarrow> bool" where
  "integer_coupled self =
     (performance_function_type (component_options self) \<noteq> 1 \<and>
      ramping_const_int (dynamics self) = Some 1)"

definition define_ramping_rates :: "tec \<Rightarrow> b_tec \<Rightarrow> data \<Rightarrow> error + b_tec" where
  "define_ramping_rates self b dat =
     bind_err (dynamics_key (ramping_time (dynamics self))) (\<lambda>rt.
     bind_err (ramping_rate self rt) (\<lambda>rr.
       if integer_coupled self then
         bind_err (gdp_Disjunct (set_t_performance self) (py_range 0 3)
                     (init_ramping_operation_on self rr))
           (\<lambda>ds. Inr (b\<lparr>dis_ramping_operation_on := ds\<rparr>))
       else
         bind_err (ramping_series self b dat) (\<lambda>(b, input_aux_rr, set_t_rr).
           let main = main_input_carrier (component_options self)
           in bind_err (pyo_Constraint set_t_rr (init_ramping_down_rate input_aux_rr main rr))
                (\<lambda>down.
              bind_err (pyo_Constraint set_t_rr (init_ramping_up_rate input_aux_rr main rr))
                (\<lambda>up.
              Inr (b\<lparr>const_ramping_down_rate := down, const_ramping_up_rate := up\<rparr>))))))"

subsection \<open>The technology model\<close>

definition performance_function :: "tec \<Rightarrow> b_tec \<Rightarrow> error + b_tec" where
  "performance_function self b =
     (let pft = performance_function_type (component_options self)
      in if pft = 1 then performance_function_type_1 self b
         else if pft = 2 then performance_function_type_2 self b
         else if pft = 3 then performance_function_type_3 self b
         else if pft = 4 then performance_function_type_4 self b
         else Inr b)"

text \<open>The constraints on the ratios of the inputs.\<close>

definition init_input_input :: "tec \<Rightarrow> int \<times> carrier \<Rightarrow> error + constr option" where
  "init_input_input self = (\<lambda>(t, car_input).
     if car_input = main_input_carrier (component_options self) then Skip
     else bind_err (lookup (phi (time_independent self)) car_input) (\<lambda>p.
            emit (Eq (V (Input t car_input))
                    (Mul (Num p) (V (Input t (main_input_carrier (component_options self))))))))"

definition init_input_input_dis :: "tec \<Rightarrow> b_tec \<Rightarrow> int \<Rightarrow> int \<Rightarrow> error + constr list" where
  "init_input_input_dis self b t ind =
     (if ind = 0 then
        bind_err (pyo_Constraint (set_input_carriers b)
                    (\<lambda>car_input.
                       if car_input = car_standby_power self then Skip
                       else emit (Eq (V (Input t car_input)) (Num 0))))
          (\<lambda>const_input_off. Inr (Eq (V (Var_x t)) (Num 0) # const_input_off))
      else
        bind_err (pyo_Constraint (set_input_carriers b)
                    (\<lambda>car_input.
                       if car_input = car_standby_power self then Skip
                       else bind_err (lookup (phi (time_independent self)) car_input) (\<lambda>p.
                              emit (Eq (V (Input t car_input))
                                      (Mul (Num p) (V (Input t (car_standby_power self))))))))
          (\<lambda>const_input_on. Inr (Eq (V (Var_x t)) (Num 1) # const_input_on)))"

definition input_ratio_constraints :: "tec \<Rightarrow> b_tec \<Rightarrow> error + b_tec" where
  "input_ratio_constraints self b =
     (if standby_power (time_independent self) = - 1 then
        bind_err (pyo_Constraint (List.product (set_t_performance self) (set_input_carriers b))
                    (init_input_input self))
          (\<lambda>cs. Inr (b\<lparr>const_input_input := cs\<rparr>))
      else
        bind_err (gdp_Disjunct (set_t_performance self) (py_range 0 2)
                    (init_input_input_dis self b))
          (\<lambda>ds. Inr (b\<lparr>dis_input_input := ds\<rparr>)))"

definition init_size_constraint :: "tec \<Rightarrow> int \<Rightarrow> constr" where
  "init_size_constraint self t =
     Le (V (Input t (main_input_carrier (component_options self))))
        (Mul (V Var_size) (Num (rated_power self)))"

definition size_constraint :: "tec \<Rightarrow> b_tec \<Rightarrow> error + b_tec" where
  "size_constraint self b =
     bind_err (pyo_Constraint (set_t_performance self) (\<lambda>t. emit (init_size_constraint self t)))
       (\<lambda>cs. Inr (b\<lparr>const_size := cs\<rparr>))"

definition ramping_enabled :: "tec \<Rightarrow> bool" where
  "ramping_enabled self =
     (case ramping_time (dynamics self) of None \<Rightarrow> False | Some rt \<Rightarrow> rt \<noteq> - 1)"

text \<open>
  \<open>Conv3.construct_tech_model\<close>, after the call of the base class, which declares the
  variables of the block: the performance function, the ratios of the inputs, the size
  constraint and, when enabled, the ramping rates.
\<close>

definition construct_tech_model :: "tec \<Rightarrow> b_tec \<Rightarrow> data \<Rightarrow> error + b_tec" where
  "construct_tech_model self b dat =
     bind_err (performance_function self b) (\<lambda>b.
     bind_err (input_ratio_constraints self b) (\<lambda>b.
     bind_err (size_constraint self b) (\<lambda>b.
       if ramping_enabled self then define_ramping_rates self b dat else Inr b)))"


subsection \<open>A small technology used to exercise the model\<close>

text \<open>
  A gas boiler with an electricity input in a fixed ratio and one output, over two time
  steps, without typical days. The variants differ in the performance function type and
  in the standby and ramping options.
\<close>

definition boiler_options :: component_options where
  "boiler_options =
     \<lparr>performance_function_type = 1, size_based_on = ''input'', emissions_based_on = ''input'',
      main_input_carrier = ''gas'', standby_power_carrier = None\<rparr>"

definition boiler_coeff :: time_independent where
  "boiler_coeff =
     \<lparr>fit = Fit1 [(''heat'', 2)], phi = [(''gas'', 2), (''electricity'', 3)],
      min_part_load = 0, standby_power = - 1, size_max = 10, ti_rated_power = 1\<rparr>"

definition boiler_dynamics :: dynamics where
  "boiler_dynamics =
     \<lparr>ramping_time = Some 2, ref_size = None, ramping_const_int = Some 1,
      SU_time = Some 1, SD_time = Some 1\<rparr>"

definition boiler :: tec where
  "boiler =
     \<lparr>component_options = boiler_options, fitting_class = Some FitGenericTecTypeType1,
      time_independent = boiler_coeff, dynamics = boiler_dynamics, rated_power = 1 / 2,
      input_ratios = [(''gas'', 2), (''electricity'', 3)],
      set_t_performance = [1, 2], set_t_full = [1, 2], sequence = [],
      calculate_input_bounds_full = []\<rparr>"

definition boiler_block :: b_tec where
  "boiler_block =
     \<lparr>set_input_carriers = [''gas'', ''electricity''], set_output_carriers = [''heat''],
      var_x = None, var_input_rr_full = [],
      const_input_output = [], const_min_part_load = [], dis_input_output = [],
      dis_SUSD_trajectory = [], const_input_input = [], dis_input_input = [],
      const_size = [], dis_ramping_operation_on = [], const_link_full_resolution_rr = [],
      const_ramping_down_rate = [], const_ramping_up_rate = []\<rparr>"

definition no_typical_days :: data where
  "no_typical_days = \<lparr>typicaldays_N = 0, typicaldays_method = 0, k_means_sequence = []\<rparr>"

subsection \<open>Constructing a technology and fitting it\<close>



subsection \<open>An assignment of the variables of the boiler\<close>

definition boiler_assignment :: assignment where
  "boiler_assignment v =
     (case v of
        Input t car \<Rightarrow>
          (if t = 2 then (if car = ''gas'' then 1 / 2 else if car = ''electricity'' then 3 / 2 else 0)
           else 0)
      | Output t car \<Rightarrow> (if t = 2 \<and> car = ''heat'' then 1 else 0)
      | Var_size \<Rightarrow> 1
      | _ \<Rightarrow> 0)"

subsection \<open>Variants of the boiler and assignments of their variables\<close>

text \<open>
  A boiler of type 2 with standby power drawn from the electricity input, the same with
  standby power drawn from the main input, and a boiler of type 4 with one start-up and
  one shut-down step. The blocks built for the first and the last are written out.
\<close>

definition standby_boiler :: tec where
  "standby_boiler =
     boiler\<lparr>component_options :=
              boiler_options\<lparr>performance_function_type := 2,
                             standby_power_carrier := Some ''electricity''\<rparr>,
            time_independent :=
              boiler_coeff\<lparr>fit := Fit2 [(''heat'', 2, 0)], min_part_load := 3 / 10,
                           standby_power := 1 / 10\<rparr>\<rparr>"

definition trajectory_boiler :: tec where
  "trajectory_boiler =
     boiler\<lparr>component_options := boiler_options\<lparr>performance_function_type := 4\<rparr>,
            time_independent :=
              boiler_coeff\<lparr>fit := Fit34 [(''heat'', \<lparr>bp_x = [0, 1], alpha1 = [2], alpha2 = [0]\<rparr>)],
                           min_part_load := 1 / 2, standby_power := 1 / 10\<rparr>,
            dynamics := boiler_dynamics\<lparr>ramping_time := None\<rparr>\<rparr>"

definition running :: assignment where
  "running v =
     (case v of
        Input t car \<Rightarrow> (if car = ''gas'' then 1 / 2 else if car = ''electricity'' then 1 / 4 else 0)
      | Output t car \<Rightarrow> (if car = ''heat'' then 1 else 0)
      | Var_size \<Rightarrow> 1
      | Var_x t \<Rightarrow> 1
      | _ \<Rightarrow> 0)"

definition standby_boiler_model :: b_tec where
  "standby_boiler_model =
     \<lparr>set_input_carriers = [''gas'', ''electricity''],
     set_output_carriers = [''heat''],
     var_x = Some ([1, 2], \<lparr>lower = 0, upper = 1\<rparr>),
     var_input_rr_full = [], const_input_output = [],
     const_min_part_load = [],
     dis_input_output =
     [(1, [(0, [Eq (V (Var_x 1)) (Num 0),
     Eq (V (Input 1 ''electricity''))
     (Mul (Mul (Num (1 / 10)) (V Var_size)) (Num (1 / 2))),
     Eq (V (Input 1 ''electricity'')) (Num 0),
     Eq (V (Output 1 ''heat'')) (Num 0)]),
     (1, [Eq (V (Var_x 1)) (Num 1),
     Eq (V (Output 1 ''heat''))
     (Add (Mul (Num 2) (V (Input 1 ''gas'')))
     (Mul (Mul (Num 0) (V Var_size)) (Num (1 / 2)))),
     Ge (V (Input 1 ''gas''))
     (Mul (Mul (Num (3 / 10)) (V Var_size))
     (Num (1 / 2)))])]),
     (2, [(0, [Eq (V (Var_x 2)) (Num 0),
     Eq (V (Input 2 ''electricity''))
     (Mul (Mul (Num (1 / 10)) (V Var_size)) (Num (1 / 2))),
     Eq (V (Input 2 ''electricity'')) (Num 0),
     Eq (V (Output 2 ''heat'')) (Num 0)]),
     (1, [Eq (V (Var_x 2)) (Num 1),
     Eq (V (Output 2 ''heat''))
     (Add (Mul (Num 2) (V (Input 2 ''gas'')))
     (Mul (Mul (Num 0) (V Var_size)) (Num (1 / 2)))),
     Ge (V (Input 2 ''gas''))
     (Mul (Mul (Num (3 / 10)) (V Var_size))
     (Num (1 / 2)))])])],
     dis_SUSD_trajectory = [], const_input_input = [],
     dis_input_input =
     [(1, [(0, [Eq (V (Var_x 1)) (Num 0),
     Eq (V (Input 1 ''gas'')) (Num 0)]),
     (1, [Eq (V (Var_x 1)) (Num 1),
     Eq (V (Input 1 ''gas''))
     (Mul (Num 2) (V (Input 1 ''electricity'')))])]),
     (2, [(0, [Eq (V (Var_x 2)) (Num 0),
     Eq (V (Input 2 ''gas'')) (Num 0)]),
     (1, [Eq (V (Var_x 2)) (Num 1),
     Eq (V (Input 2 ''gas''))
     (Mul (Num 2) (V (Input 2 ''electricity'')))])])],
     const_size =
     [Le (V (Input 1 ''gas'')) (Mul (V Var_size) (Num (1 / 2))),
     Le (V (Input 2 ''gas'')) (Mul (V Var_size) (Num (1 / 2)))],
     dis_ramping_operation_on =
     [(1, [(0, []), (1, []), (2, [])]),
     (2, [(0, [Eq (Sub (V (Var_x 2)) (V (Var_x 1))) (Num 0),
     Le (Neg (Div (V Var_size) (Num 2)))
     (Sub (V (Input 2 ''gas'')) (V (Input 1 ''gas''))),
     Le (Sub (V (Input 2 ''gas'')) (V (Input 1 ''gas'')))
     (Div (V Var_size) (Num 2))]),
     (1, [Eq (Sub (V (Var_x 2)) (V (Var_x 1))) (Num 1)]),
     (2, [Eq (Sub (V (Var_x 2)) (V (Var_x 1))) (Num (- 1))])])],
     const_link_full_resolution_rr = [], const_ramping_down_rate = [],
     const_ramping_up_rate = []\<rparr>"

definition trajectory_boiler_model :: b_tec where
  "trajectory_boiler_model =
     \<lparr>set_input_carriers = [''gas'', ''electricity''],
     set_output_carriers = [''heat''], var_x = None,
     var_input_rr_full = [], const_input_output = [],
     const_min_part_load = [], dis_input_output = [],
     dis_SUSD_trajectory =
     [(1, [(0, [Eq (V (Var_x 1)) (Num 0), Eq (V (Var_y 2)) (Num 0),
     Eq (V (Var_z 1)) (Num 0),
     Eq (V (Input 1 ''gas'')) (Num 0),
     Eq (V (Input 1 ''electricity'')) (Num 0),
     Eq (V (Output 1 ''heat'')) (Num 0)]),
     (1, [Eq (V (Var_x 1)) (Num 0), Eq (V (Var_y 2)) (Num 1),
     Eq (V (Var_z 2)) (Num 0),
     Eq (V (Input 1 ''gas''))
     (Mul (V Var_size) (Num (1 / 4))),
     Eq (V (Output 1 ''heat''))
     (Add (Mul (Num 2) (V (Input 1 ''gas'')))
     (Mul (Mul (Num 0) (V Var_size)) (Num (1 / 2))))]),
     (2, [Eq (V (Var_x 1)) (Num 0), Eq (V (Var_z 1)) (Num 1),
     Eq (V (Var_y 1)) (Num 0),
     Eq (V (Input 1 ''gas''))
     (Mul (V Var_size) (Num (1 / 4))),
     Eq (V (Output 1 ''heat''))
     (Add (Mul (Num 2) (V (Input 1 ''gas'')))
     (Mul (Mul (Num 0) (V Var_size)) (Num (1 / 2))))]),
     (3, [Eq (V (Var_x 1)) (Num 1),
     Ge (V (Input 1 ''gas''))
     (Mul (Mul (Num 0) (V Var_size)) (Num (1 / 2))),
     Le (V (Input 1 ''gas''))
     (Mul (Mul (Num 1) (V Var_size)) (Num (1 / 2))),
     Eq (V (Output 1 ''heat''))
     (Add (Mul (Num 2) (V (Input 1 ''gas'')))
     (Mul (Mul (Num 0) (V Var_size)) (Num (1 / 2)))),
     Ge (V (Input 1 ''gas''))
     (Mul (Mul (Num (1 / 2)) (V Var_size))
     (Num (1 / 2)))])]),
     (2, [(0, [Eq (V (Var_x 2)) (Num 0), Eq (V (Var_y 1)) (Num 0),
     Eq (V (Var_z 2)) (Num 0),
     Eq (V (Input 2 ''gas'')) (Num 0),
     Eq (V (Input 2 ''electricity'')) (Num 0),
     Eq (V (Output 2 ''heat'')) (Num 0)]),
     (1, [Eq (V (Var_x 2)) (Num 0), Eq (V (Var_y 1)) (Num 1),
     Eq (V (Var_z 1)) (Num 0),
     Eq (V (Input 2 ''gas''))
     (Mul (V Var_size) (Num (1 / 4))),
     Eq (V (Output 2 ''heat''))
     (Add (Mul (Num 2) (V (Input 2 ''gas'')))
     (Mul (Mul (Num 0) (V Var_size)) (Num (1 / 2))))]),
     (2, [Eq (V (Var_x 2)) (Num 0), Eq (V (Var_z 2)) (Num 1),
     Eq (V (Var_y 2)) (Num 0),
     Eq (V (Input 2 ''gas''))
     (Mul (V Var_size) (Num (1 / 4))),
     Eq (V (Output 2 ''heat''))
     (Add (Mul (Num 2) (V (Input 2 ''gas'')))
     (Mul (Mul (Num 0) (V Var_size)) (Num (1 / 2))))]),
     (3, [Eq (V (Var_x 2)) (Num 1),
     Ge (V (Input 2 ''gas''))
     (Mul (Mul (Num 0) (V Var_size)) (Num (1 / 2))),
     Le (V (Input 2 ''gas''))
     (Mul (Mul (Num 1) (V Var_size)) (Num (1 / 2))),
     Eq (V (Output 2 ''heat''))
     (Add (Mul (Num 2) (V (Input 2 ''gas'')))
     (Mul (Mul (Num 0) (V Var_size)) (Num (1 / 2)))),
     Ge (V (Input 2 ''gas''))
     (Mul (Mul (Num (1 / 2)) (V Var_size))
     (Num (1 / 2)))])])],
     const_input_input = [],
     dis_input_input =
     [(1, [(0, [Eq (V (Var_x 1)) (Num 0),
     Eq (V (Input 1 ''electricity'')) (Num 0)]),
     (1, [Eq (V (Var_x 1)) (Num 1),
     Eq (V (Input 1 ''electricity''))
     (Mul (Num 3) (V (Input 1 ''gas'')))])]),
     (2, [(0, [Eq (V (Var_x 2)) (Num 0),
     Eq (V (Input 2 ''electricity'')) (Num 0)]),
     (1, [Eq (V (Var_x 2)) (Num 1),
     Eq (V (Input 2 ''electricity''))
     (Mul (Num 3) (V (Input 2 ''gas'')))])])],
     const_size =
     [Le (V (Input 1 ''gas'')) (Mul (V Var_size) (Num (1 / 2))),
     Le (V (Input 2 ''gas'')) (Mul (V Var_size) (Num (1 / 2)))],
     dis_ramping_operation_on = [], const_link_full_resolution_rr = [],
     const_ramping_down_rate = [], const_ramping_up_rate = []\<rparr>"

text \<open>The constraints of the disjunct of a time step and an indicator, as \<open>dis[t, ind]\<close>.\<close>

definition disjunct_of :: "disjunction list \<Rightarrow> int \<Rightarrow> int \<Rightarrow> constr list" where
  "disjunct_of djs t ind =
     (case map_of djs t of
        None \<Rightarrow> []
      | Some ds \<Rightarrow> (case map_of ds ind of None \<Rightarrow> [] | Some cs \<Rightarrow> cs))"


definition stopped :: assignment where
  "stopped v = (case v of Var_size \<Rightarrow> 1 | _ \<Rightarrow> 0)"



section \<open>Properties\<close>

subsection \<open>Errors, indexed constraints and disjunctions\<close>

lemma bind_err_Inr: "(bind_err m f = Inr y) = (\<exists>x. m = Inr x \<and> f x = Inr y)"
  by (cases m) (simp_all add: bind_err_def)

lemma bind_err_Inr_simp [simp]: "bind_err (Inr x) f = f x"
  by (simp add: bind_err_def)

lemma bind_err_Inl_simp [simp]: "bind_err (Inl e) f = Inl e"
  by (simp add: bind_err_def)

lemma mapM_total: "mapM (\<lambda>x. Inr (g x)) xs = Inr (map g xs)"
  by (induction xs) simp_all

lemma mapM_Inr: "(mapM f xs = Inr ys) = list_all2 (\<lambda>x y. f x = Inr y) xs ys"
proof (induction xs arbitrary: ys)
  case Nil
  show ?case by auto
next
  case (Cons x xs)
  show ?case
    by (cases ys) (auto simp: bind_err_Inr Cons.IH)
qed

lemma mapM_Inr_set:
  assumes "mapM f xs = Inr ys"
  shows "(y \<in> set ys) = (\<exists>x\<in>set xs. f x = Inr y)"
proof -
  from assms have h: "list_all2 (\<lambda>x y. f x = Inr y) xs ys" by (simp add: mapM_Inr)
  show ?thesis
  proof
    assume "y \<in> set ys"
    then obtain i where "i < length ys" "ys ! i = y" by (auto simp: in_set_conv_nth)
    with h show "\<exists>x\<in>set xs. f x = Inr y"
      by (auto simp: list_all2_conv_all_nth intro!: bexI[of _ "xs ! i"])
  next
    assume "\<exists>x\<in>set xs. f x = Inr y"
    then obtain i where "i < length xs" "f (xs ! i) = Inr y" by (auto simp: in_set_conv_nth)
    with h show "y \<in> set ys"
      by (auto simp: list_all2_conv_all_nth in_set_conv_nth)
  qed
qed

lemma map_filter_id_map: "List.map_filter id (map g xs) = List.map_filter g xs"
  by (induction xs) (simp_all split: option.splits)

lemma set_map_filter_id: "(c \<in> set (List.map_filter id rs)) = (Some c \<in> set rs)"
  by (induction rs) (auto split: option.splits)

lemma pyo_Constraint_total: "pyo_Constraint index (\<lambda>i. Inr (g i)) = Inr (List.map_filter g index)"
  by (simp add: pyo_Constraint_def mapM_total map_filter_id_map)

lemma pyo_Constraint_set:
  assumes "pyo_Constraint index rule = Inr cs"
  shows "(c \<in> set cs) = (\<exists>i\<in>set index. rule i = Inr (Some c))"
proof -
  from assms obtain rs where rs: "mapM rule index = Inr rs" and cs: "cs = List.map_filter id rs"
    by (auto simp: pyo_Constraint_def bind_err_Inr)
  have "(c \<in> set cs) = (Some c \<in> set rs)"
    by (simp add: cs set_map_filter_id)
  then show ?thesis by (simp add: mapM_Inr_set[OF rs])
qed

lemma gdp_Disjunct_set:
  assumes "gdp_Disjunct set_t inds rule = Inr djs"
  shows "((t, ds) \<in> set djs) =
         (t \<in> set set_t \<and> list_all2 (\<lambda>ind d. fst d = ind \<and> rule t ind = Inr (snd d)) inds ds)"
proof -
  have "((t, ds) \<in> set djs) =
        (\<exists>t'\<in>set set_t. bind_err (mapM (\<lambda>ind. bind_err (rule t' ind) (\<lambda>d. Inr (ind, d))) inds)
                 (\<lambda>ds. Inr (t', ds)) = Inr (t, ds))"
    using assms unfolding gdp_Disjunct_def by (rule mapM_Inr_set)
  also have "\<dots> = (t \<in> set set_t \<and> mapM (\<lambda>ind. bind_err (rule t ind) (\<lambda>d. Inr (ind, d))) inds = Inr ds)"
    by (auto simp: bind_err_Inr)
  also have "\<dots> = (t \<in> set set_t \<and> list_all2 (\<lambda>ind d. fst d = ind \<and> rule t ind = Inr (snd d)) inds ds)"
    by (auto simp: mapM_Inr bind_err_Inr elim!: list_all2_mono)
  finally show ?thesis .
qed

lemma mapM_Inr_ex:
  assumes "mapM f xs = Inr ys" "x \<in> set xs"
  shows "\<exists>y\<in>set ys. f x = Inr y"
proof -
  from assms(1) have h: "list_all2 (\<lambda>x y. f x = Inr y) xs ys" by (simp add: mapM_Inr)
  from assms(2) obtain i where i: "i < length xs" "xs ! i = x" by (auto simp: in_set_conv_nth)
  from h i have "i < length ys" "f x = Inr (ys ! i)"
    by (auto simp: list_all2_conv_all_nth)
  then show ?thesis by (metis nth_mem)
qed

lemma gdp_Disjunct_ex:
  assumes "gdp_Disjunct set_t inds rule = Inr djs" "t \<in> set set_t"
  shows "\<exists>ds. (t, ds) \<in> set djs"
proof -
  from mapM_Inr_ex[OF assms(1)[unfolded gdp_Disjunct_def] assms(2)]
  obtain y where "y \<in> set djs"
    "bind_err (mapM (\<lambda>ind. bind_err (rule t ind) (\<lambda>d. Inr (ind, d))) inds)
                 (\<lambda>ds. Inr (t, ds)) = Inr y" by blast
  then show ?thesis by (auto simp: bind_err_Inr)
qed


subsection \<open>The constructor\<close>

text \<open>
  Claim C6. A performance function type outside 1, 2, 3 and 4 makes the constructor raise:
  whatever the technology data, the constructor returns an error, and with the main input
  carrier present the error is the one about the performance function type. With a type
  among 1 to 4 the constructor never raises that error, and with the main input carrier
  present it returns the technology. Fitting and the construction of the block take the
  constructed technology, so neither runs when the constructor has raised.
\<close>

theorem Conv3_init_function_type:
  "(performance_function_type (component_options self) \<notin> {1, 2, 3, 4} \<longrightarrow>
      isl (Conv3_init self m) \<and>
      Conv3_init self (Some car) = Inl unsupported_function_type) \<and>
   (performance_function_type (component_options self) \<in> {1, 2, 3, 4} \<longrightarrow>
      Conv3_init self m \<noteq> Inl unsupported_function_type \<and>
      \<not> isl (Conv3_init self (Some car)))"
  by (cases m) (auto simp: Conv3_init_def Let_def unsupported_function_type_def)

theorem Conv3_init_function_type_witness:
  "isl (Conv3_init (boiler\<lparr>component_options := boiler_options\<lparr>performance_function_type := 5\<rparr>\<rparr>) None) \<and>
   Conv3_init (boiler\<lparr>component_options := boiler_options\<lparr>performance_function_type := 5\<rparr>\<rparr>)
     (Some ''gas'') = Inl unsupported_function_type \<and>
   Conv3_init boiler None \<noteq> Inl unsupported_function_type \<and>
   \<not> isl (Conv3_init boiler (Some ''gas''))"
  using Conv3_init_function_type
          [of "boiler\<lparr>component_options := boiler_options\<lparr>performance_function_type := 5\<rparr>\<rparr>"
              None "''gas''"]
        Conv3_init_function_type [of boiler None "''gas''"]
  by (simp add: boiler_def boiler_options_def)

subsection \<open>Fitting\<close>





subsection \<open>Start-up and shut-down trajectories\<close>

lemma py_range_sorted: "sorted_wrt (<) (py_range a b)"
  by (simp add: py_range_def strict_sorted_iff)

lemma trajectory_monotone:
  assumes "0 \<le> (mpl::real)" "0 < su"
  shows "sorted (map (\<lambda>i. (mpl / (of_int su + 1)) * of_int i) (py_range 1 (su + 1)))"
proof -
  have "(0::real) < of_int su + 1" using assms(2) by linarith
  with assms(1) have k: "0 \<le> mpl / (of_int su + 1)" by simp
  have "sorted_wrt (\<lambda>i j. (mpl / (of_int su + 1)) * of_int i \<le> (mpl / (of_int su + 1)) * of_int j)
          (py_range 1 (su + 1))"
  proof (rule sorted_wrt_mono_rel[OF _ py_range_sorted])
    fix i j :: int
    assume "i < j"
    then have "(of_int i :: real) \<le> of_int j" by simp
    then show "(mpl / (of_int su + 1)) * of_int i \<le> (mpl / (of_int su + 1)) * of_int j"
      using k by (rule mult_left_mono)
  qed
  then show ?thesis by (simp add: sorted_wrt_map)
qed

text \<open>
  Claim C3, as stated, fails twice. With a minimum part load of zero the start-up
  trajectory is constant, not strictly increasing; and the shut-down trajectory is built
  from \<open>SD_time\<close>, so with \<open>SU_time = 2\<close> and \<open>SD_time = 1\<close> it does not have the values of the
  start-up trajectory.
\<close>

theorem trajectory_counterexample:
  "SU_trajectory 0 2 = Some [0, 0] \<and> \<not> sorted_wrt (<) [0 :: real, 0] \<and>
   SU_trajectory (2 / 5) 2 = Some [2 / 15, 4 / 15] \<and>
   SD_trajectory (2 / 5) 1 = Some [1 / 5] \<and>
   set [1 / 5 :: real] \<noteq> set [2 / 15, 4 / 15]"
  by (simp add: SU_trajectory_def SD_trajectory_def py_range_def upto.simps)

text \<open>
  Claim C3, as amended. For \<open>SU_time > 0\<close> the start-up trajectory is the list of
  \<open>(min_part_load / (SU_time + 1)) * i\<close> for \<open>i\<close> from 1 to \<open>SU_time\<close>, and a shut-down
  trajectory of the same number of steps has the same values. When the minimum part load
  is not negative the values of the start-up trajectory never decrease, and that shut-down
  trajectory is its reverse. For \<open>SD_time > 0\<close> the shut-down trajectory is the same formula
  over \<open>SD_time\<close>, sorted so that its values never increase. With \<open>SU_time = 2\<close> and a
  minimum part load of 0.4 the start-up trajectory is \<open>[0.4 / 3, 0.8 / 3]\<close>. Strict
  increase and the bound by the minimum part load are not stated: they depend on the
  rounding of the floating-point operations.
\<close>

theorem trajectory_construction:
  "(0 < su \<longrightarrow>
      SU_trajectory mpl su =
        Some (map (\<lambda>i. (mpl / (of_int su + 1)) * of_int i) [1..su]) \<and>
      set (the (SD_trajectory mpl su)) = set (the (SU_trajectory mpl su)) \<and>
      length (the (SD_trajectory mpl su)) = length (the (SU_trajectory mpl su)) \<and>
      (0 \<le> mpl \<longrightarrow>
         sorted (the (SU_trajectory mpl su)) \<and>
         SD_trajectory mpl su = Some (rev (the (SU_trajectory mpl su))))) \<and>
   (0 < sd \<longrightarrow>
      SD_trajectory mpl sd =
        Some (rev (sort (map (\<lambda>i. (mpl / (of_int sd + 1)) * of_int i) [1..sd]))) \<and>
      sorted_wrt (\<lambda>x y. y \<le> x) (the (SD_trajectory mpl sd))) \<and>
   SU_trajectory (4 / 10) 2 = Some [(4 / 10) / 3, (8 / 10) / 3]"
proof (intro conjI impI)
  assume su: "0 < su"
  show "SU_trajectory mpl su = Some (map (\<lambda>i. (mpl / (of_int su + 1)) * of_int i) [1..su])"
    using su by (simp add: SU_trajectory_def py_range_def)
  show "set (the (SD_trajectory mpl su)) = set (the (SU_trajectory mpl su))"
    using su by (simp add: SU_trajectory_def SD_trajectory_def)
  show "length (the (SD_trajectory mpl su)) = length (the (SU_trajectory mpl su))"
    using su by (simp add: SU_trajectory_def SD_trajectory_def)
  assume mpl: "0 \<le> mpl"
  show inc: "sorted (the (SU_trajectory mpl su))"
    using trajectory_monotone[OF mpl su] su by (simp add: SU_trajectory_def)
  then show "SD_trajectory mpl su = Some (rev (the (SU_trajectory mpl su)))"
    using su by (simp add: SU_trajectory_def SD_trajectory_def sorted_sort_id)
next
  assume sd: "0 < sd"
  show "SD_trajectory mpl sd =
        Some (rev (sort (map (\<lambda>i. (mpl / (of_int sd + 1)) * of_int i) [1..sd])))"
    using sd by (simp add: SD_trajectory_def py_range_def)
  show "sorted_wrt (\<lambda>x y. y \<le> x) (the (SD_trajectory mpl sd))"
    using sd by (simp add: SD_trajectory_def sorted_wrt_rev)
next
  show "SU_trajectory (4 / 10) 2 = Some [(4 / 10) / 3, (8 / 10) / 3]"
    by (simp add: SU_trajectory_def py_range_def upto.simps)
qed

theorem trajectory_construction_witness:
  "(0::int) < 2 \<and> (0::real) \<le> 4 / 10 \<and>
   SU_trajectory (4 / 10) 2 = Some [2 / 15, 4 / 15] \<and>
   sorted [2 / 15 :: real, 4 / 15] \<and>
   SD_trajectory (4 / 10) 2 = Some [4 / 15, 2 / 15] \<and>
   set [4 / 15 :: real, 2 / 15] = set [2 / 15, 4 / 15] \<and>
   sorted_wrt (\<lambda>x y. y \<le> x) [4 / 15 :: real, 2 / 15]"
proof -
  have su: "SU_trajectory (4 / 10) 2 = Some [2 / 15, 4 / 15]"
    by (simp add: SU_trajectory_def py_range_def upto.simps)
  have p: "(0::int) < 2" "(0::real) \<le> 4 / 10" by simp_all
  from trajectory_construction [of 2 "4 / 10" 2] p
  have "sorted (the (SU_trajectory (4 / 10) 2))"
       "SD_trajectory (4 / 10) 2 = Some (rev (the (SU_trajectory (4 / 10) 2)))"
       "set (the (SD_trajectory (4 / 10) 2)) = set (the (SU_trajectory (4 / 10) 2))"
       "sorted_wrt (\<lambda>x y. y \<le> x) (the (SD_trajectory (4 / 10) 2))"
    by blast+
  then have "sorted [2 / 15 :: real, 4 / 15]"
       "SD_trajectory (4 / 10) 2 = Some [4 / 15, 2 / 15]"
    by (simp_all only: su option.sel rev.simps append.simps)
  then show ?thesis using su by auto
qed

subsection \<open>Evaluating the model on the boiler\<close>

lemmas model_defs =
  construct_tech_model_def performance_function_def performance_function_type_1_def
  performance_function_type_2_def performance_function_type_3_def performance_function_type_4_def
  input_ratio_constraints_def size_constraint_def define_ramping_rates_def ramping_series_def
  ramping_enabled_def integer_coupled_def ramping_rate_def dynamics_key_def
  init_input_input_def init_input_input_dis_def init_size_constraint_def
  init_ramping_down_rate_def init_ramping_up_rate_def init_ramping_operation_on_def
  fit_alpha1_def fit_alpha12_def fit_piecewise_def fit_bp_x_def
  disjunct_off_def init_input_off_def init_standby_power_def init_output_off_def
  init_min_partload_def init_input_output_2_def init_input_output_3_def segment_on_def
  declare_var_x_def car_standby_power_def
  pyo_Constraint_def gdp_Disjunct_def emit_def Skip_def lookup_def py_index_def py_range_def
  Let_def

lemmas boiler_defs = boiler_def boiler_options_def boiler_coeff_def boiler_dynamics_def
  boiler_block_def no_typical_days_def

lemma boiler_construct:
  "construct_tech_model boiler boiler_block no_typical_days =
     Inr (boiler_block
       \<lparr>const_input_output := [Eq (V (Output 1 ''heat'')) (Mul (Num 2) (V (Input 1 ''gas''))),
                               Eq (V (Output 2 ''heat'')) (Mul (Num 2) (V (Input 2 ''gas'')))],
        const_input_input := [Eq (V (Input 1 ''electricity'')) (Mul (Num 3) (V (Input 1 ''gas''))),
                              Eq (V (Input 2 ''electricity'')) (Mul (Num 3) (V (Input 2 ''gas'')))],
        const_size := [Le (V (Input 1 ''gas'')) (Mul (V Var_size) (Num (1 / 2))),
                       Le (V (Input 2 ''gas'')) (Mul (V Var_size) (Num (1 / 2)))],
        const_ramping_down_rate :=
          [Le (Neg (Div (V Var_size) (Num 2))) (Sub (V (Input 2 ''gas'')) (V (Input 1 ''gas'')))],
        const_ramping_up_rate :=
          [Le (Sub (V (Input 2 ''gas'')) (V (Input 1 ''gas''))) (Div (V Var_size) (Num 2))]\<rparr>)"
  by (simp add: model_defs boiler_defs)

lemma boiler_sat:
  "sat_block boiler_assignment (projr (construct_tech_model boiler boiler_block no_typical_days))"
  unfolding boiler_construct sum.sel
  by (simp add: sat_block_def sat_all_def sat_disjunctions_def sat_var_x_def
       sat_var_input_rr_full_def boiler_block_def boiler_assignment_def)


subsection \<open>The stages of the technology model\<close>

lemma map_filter_Some: "List.map_filter (\<lambda>x. Some (g x)) xs = map g xs"
  by (induction xs) simp_all

lemma map_filter_if: "List.map_filter (\<lambda>x. if P x then Some (g x) else None) xs = map g (filter P xs)"
  by (induction xs) simp_all

lemma sat_all_mem: "sat_all \<rho> cs \<Longrightarrow> c \<in> set cs \<Longrightarrow> holds \<rho> c"
  by (simp add: sat_all_def list_all_iff)

lemma construct_stages:
  assumes "construct_tech_model self b dat = Inr b'"
  obtains b1 b2 b3 where
    "performance_function self b = Inr b1"
    "input_ratio_constraints self b1 = Inr b2"
    "size_constraint self b2 = Inr b3"
    "(if ramping_enabled self then define_ramping_rates self b3 dat else Inr b3) = Inr b'"
  using assms by (auto simp: construct_tech_model_def bind_err_Inr)

lemma size_constraint_eq:
  "size_constraint self b =
     Inr (b\<lparr>const_size := map (init_size_constraint self) (set_t_performance self)\<rparr>)"
  by (simp add: size_constraint_def emit_def pyo_Constraint_total map_filter_Some)

lemma ramping_series_frame:
  assumes "ramping_series self b dat = Inr (b1, aux, ts)"
  shows "const_size b1 = const_size b"
    and "dis_input_output b1 = dis_input_output b"
    and "dis_SUSD_trajectory b1 = dis_SUSD_trajectory b"
    and "dis_input_input b1 = dis_input_input b"
    and "const_input_input b1 = const_input_input b"
    and "dis_ramping_operation_on b1 = dis_ramping_operation_on b"
    and "var_x b1 = var_x b"
    and "aux = (if typicaldays_N dat = 0 then Input else Var_input_rr_full)"
    and "ts = (if typicaldays_N dat = 0 then set_t_performance self else set_t_full self)"
  using assms by (auto simp: ramping_series_def bind_err_Inr split: if_splits)

lemma ramping_down_rate_eq:
  "pyo_Constraint ts (init_ramping_down_rate aux main rr) =
     Inr (map (\<lambda>t. Le (Neg rr) (Sub (V (aux t main)) (V (aux (t - 1) main))))
            (filter (\<lambda>t. 1 < t) ts))"
proof -
  have "init_ramping_down_rate aux main rr =
          (\<lambda>t. Inr (if 1 < t then Some (Le (Neg rr) (Sub (V (aux t main)) (V (aux (t - 1) main))))
                     else None))"
    by (auto simp: init_ramping_down_rate_def emit_def Skip_def)
  then show ?thesis by (simp add: pyo_Constraint_total map_filter_if)
qed

lemma ramping_up_rate_eq:
  "pyo_Constraint ts (init_ramping_up_rate aux main rr) =
     Inr (map (\<lambda>t. Le (Sub (V (aux t main)) (V (aux (t - 1) main))) rr)
            (filter (\<lambda>t. 1 < t) ts))"
proof -
  have "init_ramping_up_rate aux main rr =
          (\<lambda>t. Inr (if 1 < t then Some (Le (Sub (V (aux t main)) (V (aux (t - 1) main))) rr)
                     else None))"
    by (auto simp: init_ramping_up_rate_def emit_def Skip_def)
  then show ?thesis by (simp add: pyo_Constraint_total map_filter_if)
qed

lemma define_ramping_rates_frame:
  assumes "define_ramping_rates self b dat = Inr b'"
  shows "const_size b' = const_size b"
    and "dis_input_output b' = dis_input_output b"
    and "dis_SUSD_trajectory b' = dis_SUSD_trajectory b"
    and "dis_input_input b' = dis_input_input b"
    and "const_input_input b' = const_input_input b"
    and "var_x b' = var_x b"
  using assms
  by (auto simp: define_ramping_rates_def bind_err_Inr Let_def ramping_down_rate_eq
        ramping_up_rate_eq split: if_splits dest: ramping_series_frame)

lemma define_ramping_rates_unconditional:
  assumes "define_ramping_rates self b dat = Inr b'" "\<not> integer_coupled self"
  obtains rt rr where
    "ramping_time (dynamics self) = Some rt"
    "ramping_rate self rt = Inr rr"
    "dis_ramping_operation_on b' = dis_ramping_operation_on b"
    "const_ramping_down_rate b' =
       map (\<lambda>t. Le (Neg rr)
                  (Sub (V ((if typicaldays_N dat = 0 then Input else Var_input_rr_full) t
                            (main_input_carrier (component_options self))))
                       (V ((if typicaldays_N dat = 0 then Input else Var_input_rr_full) (t - 1)
                            (main_input_carrier (component_options self))))))
         (filter (\<lambda>t. 1 < t)
            (if typicaldays_N dat = 0 then set_t_performance self else set_t_full self))"
    "const_ramping_up_rate b' =
       map (\<lambda>t. Le (Sub (V ((if typicaldays_N dat = 0 then Input else Var_input_rr_full) t
                            (main_input_carrier (component_options self))))
                       (V ((if typicaldays_N dat = 0 then Input else Var_input_rr_full) (t - 1)
                            (main_input_carrier (component_options self)))))
                  rr)
         (filter (\<lambda>t. 1 < t)
            (if typicaldays_N dat = 0 then set_t_performance self else set_t_full self))"
proof -
  from assms obtain rt rr b1 aux ts where
    rt: "ramping_time (dynamics self) = Some rt" and rr: "ramping_rate self rt = Inr rr"
    and rs: "ramping_series self b dat = Inr (b1, aux, ts)"
    and b': "b' = b1\<lparr>const_ramping_down_rate :=
                       map (\<lambda>t. Le (Neg rr) (Sub (V (aux t (main_input_carrier (component_options self)))) (V (aux (t - 1) (main_input_carrier (component_options self)))))) (filter (\<lambda>t. 1 < t) ts),
                     const_ramping_up_rate :=
                       map (\<lambda>t. Le (Sub (V (aux t (main_input_carrier (component_options self)))) (V (aux (t - 1) (main_input_carrier (component_options self))))) rr) (filter (\<lambda>t. 1 < t) ts)\<rparr>"
    by (auto simp: define_ramping_rates_def bind_err_Inr dynamics_key_def Let_def
          ramping_down_rate_eq ramping_up_rate_eq split: option.splits)
  note fr = ramping_series_frame[OF rs]
  show ?thesis
    by (rule that[OF rt rr]) (simp_all add: b' fr)
qed

lemma ramping_rate_value:
  assumes "ramping_rate self rt = Inr rr"
  shows "rt \<noteq> 0" and
    "evalE \<rho> rr =
       (case ref_size (dynamics self) of
          Some r \<Rightarrow> (if r \<noteq> - 1 then r / rt else \<rho> Var_size / rt)
        | None \<Rightarrow> \<rho> Var_size / rt)"
  using assms by (auto simp: ramping_rate_def split: option.splits if_splits)


lemma construct_const_size:
  assumes "construct_tech_model self b dat = Inr b'"
  shows "const_size b' = map (init_size_constraint self) (set_t_performance self)"
proof -
  from assms obtain b2 b3 where
    s: "size_constraint self b2 = Inr b3" and
    r: "(if ramping_enabled self then define_ramping_rates self b3 dat else Inr b3) = Inr b'"
    by (rule construct_stages)
  from s have "const_size b3 = map (init_size_constraint self) (set_t_performance self)"
    by (auto simp: size_constraint_eq)
  moreover from r have "const_size b' = const_size b3"
    by (auto split: if_splits dest: define_ramping_rates_frame(1))
  ultimately show ?thesis by simp
qed

subsection \<open>The size constraint\<close>

text \<open>
  Claim C5. Whatever the performance function type, when the technology model is built
  the component \<open>const_size\<close>, which lies outside every disjunction, holds for every
  performance time step \<open>t\<close> the constraint \<open>input[t, main] \<le> size * rated_power\<close>; hence
  every assignment that satisfies the block satisfies it, in every mode.
\<close>

theorem size_constraint_unconditional:
  assumes "construct_tech_model self b dat = Inr b'"
      and "t \<in> set (set_t_performance self)"
  shows "Le (V (Input t (main_input_carrier (component_options self))))
            (Mul (V Var_size) (Num (rated_power self))) \<in> set (const_size b') \<and>
         (\<forall>\<rho>. sat_block \<rho> b' \<longrightarrow>
            \<rho> (Input t (main_input_carrier (component_options self)))
              \<le> \<rho> Var_size * rated_power self)"
proof -
  have m: "Le (V (Input t (main_input_carrier (component_options self))))
            (Mul (V Var_size) (Num (rated_power self))) \<in> set (const_size b')"
    using assms(2) by (auto simp: construct_const_size[OF assms(1)] init_size_constraint_def)
  have "\<rho> (Input t (main_input_carrier (component_options self))) \<le> \<rho> Var_size * rated_power self"
    if "sat_block \<rho> b'" for \<rho>
  proof -
    from that have "sat_all \<rho> (const_size b')" by (simp add: sat_block_def)
    from sat_all_mem[OF this m] show ?thesis by simp
  qed
  with m show ?thesis by blast
qed

theorem size_constraint_unconditional_witness:
  "\<not> isl (construct_tech_model boiler boiler_block no_typical_days) \<and>
   Le (V (Input 2 ''gas'')) (Mul (V Var_size) (Num (1 / 2)))
     \<in> set (const_size (projr (construct_tech_model boiler boiler_block no_typical_days))) \<and>
   sat_block boiler_assignment (projr (construct_tech_model boiler boiler_block no_typical_days)) \<and>
   boiler_assignment (Input 2 ''gas'') \<le> boiler_assignment Var_size * (1 / 2)"
proof -
  have c: "construct_tech_model boiler boiler_block no_typical_days =
             Inr (projr (construct_tech_model boiler boiler_block no_typical_days))"
    by (simp add: boiler_construct)
  have t: "2 \<in> set (set_t_performance boiler)" by (simp add: boiler_def)
  have m: "main_input_carrier (component_options boiler) = ''gas''" "rated_power boiler = 1 / 2"
    by (simp_all add: boiler_def boiler_options_def)
  have n: "\<not> isl (construct_tech_model boiler boiler_block no_typical_days)"
    by (simp add: boiler_construct)
  from size_constraint_unconditional [OF c t, unfolded m] boiler_sat n
  show ?thesis by blast
qed

subsection \<open>Ramping rates\<close>

lemma boiler_facts:
  "ramping_time (dynamics boiler) = Some 2"
  "\<not> integer_coupled boiler"
  "ref_size (dynamics boiler) = None"
  "main_input_carrier (component_options boiler) = ''gas''"
  "performance_function_type (component_options boiler) = 1"
  "ramping_const_int (dynamics boiler) = Some 1"
  "set_t_performance boiler = [1, 2]"
  "typicaldays_N no_typical_days = 0"
  "rated_power boiler = 1 / 2"
  by (simp_all add: boiler_def boiler_dynamics_def boiler_options_def integer_coupled_def
        no_typical_days_def)

text \<open>
  Claim C2, as stated, fails: the ramping rate has no factor \<open>rated_power\<close>. The boiler has
  rated power 1/2 and ramping time 2; the assignment satisfies every constraint of its
  block with size 1 and raises the main input by 1/2 from step 1 to step 2, more than
  \<open>size * rated_power / ramping_time = 1/4\<close>.
\<close>

theorem ramping_counterexample:
  "\<not> isl (construct_tech_model boiler boiler_block no_typical_days) \<and>
   sat_block boiler_assignment (projr (construct_tech_model boiler boiler_block no_typical_days)) \<and>
   ramping_time (dynamics boiler) = Some 2 \<and>
   \<not> integer_coupled boiler \<and>
   ref_size (dynamics boiler) = None \<and>
   \<not> \<bar>boiler_assignment (Input 2 ''gas'') - boiler_assignment (Input 1 ''gas'')\<bar>
       \<le> boiler_assignment Var_size * rated_power boiler / 2"
  using boiler_sat
  by (simp add: boiler_construct)
     (simp add: boiler_def boiler_dynamics_def boiler_options_def integer_coupled_def
        boiler_assignment_def)

text \<open>
  Claim C2, as amended. When ramping is enabled (\<open>ramping_time\<close> present and not \<open>-1\<close>) and
  the ramping is not coupled to the on-indicator, every assignment satisfying the block
  keeps, for every step \<open>t > 1\<close> of the ramping series, the change of the main input
  from \<open>t - 1\<close> to \<open>t\<close> within \<open>size / ramping_time\<close> in absolute value, with \<open>ref_size\<close> in
  place of \<open>size\<close> when a reference size other than \<open>-1\<close> is configured. The ramping series
  is the input over the performance time steps without typical days, and the
  full-resolution input over the full time steps otherwise. Every ramping constraint
  relates a step \<open>s > 1\<close> to \<open>s - 1\<close>: none relates the first step to an earlier one.
\<close>

theorem ramping_bound:
  assumes "construct_tech_model self b dat = Inr b'"
      and "ramping_time (dynamics self) = Some rt" and "rt \<noteq> - 1"
      and "\<not> integer_coupled self"
      and "sat_block \<rho> b'"
      and "t \<in> set (if typicaldays_N dat = 0 then set_t_performance self else set_t_full self)"
  shows "(1 < t \<longrightarrow>
          \<bar>\<rho> ((if typicaldays_N dat = 0 then Input else Var_input_rr_full) t
                  (main_input_carrier (component_options self)))
            - \<rho> ((if typicaldays_N dat = 0 then Input else Var_input_rr_full) (t - 1)
                    (main_input_carrier (component_options self)))\<bar>
          \<le> (case ref_size (dynamics self) of
                Some r \<Rightarrow> (if r \<noteq> - 1 then r / rt else \<rho> Var_size / rt)
              | None \<Rightarrow> \<rho> Var_size / rt)) \<and>
         (\<forall>c\<in>set (const_ramping_down_rate b' @ const_ramping_up_rate b').
            \<exists>rr. \<exists>s\<in>set (if typicaldays_N dat = 0 then set_t_performance self else set_t_full self).
              1 < s \<and>
              (c = Le (Neg rr)
                     (Sub (V ((if typicaldays_N dat = 0 then Input else Var_input_rr_full) s
                               (main_input_carrier (component_options self))))
                          (V ((if typicaldays_N dat = 0 then Input else Var_input_rr_full) (s - 1)
                               (main_input_carrier (component_options self))))) \<or>
               c = Le (Sub (V ((if typicaldays_N dat = 0 then Input else Var_input_rr_full) s
                               (main_input_carrier (component_options self))))
                          (V ((if typicaldays_N dat = 0 then Input else Var_input_rr_full) (s - 1)
                               (main_input_carrier (component_options self)))))
                     rr))"
proof -
  let ?aux = "if typicaldays_N dat = 0 then Input else Var_input_rr_full"
  let ?ts = "if typicaldays_N dat = 0 then set_t_performance self else set_t_full self"
  let ?main = "main_input_carrier (component_options self)"
  from assms(1) obtain b3 where
    r: "(if ramping_enabled self then define_ramping_rates self b3 dat else Inr b3) = Inr b'"
    by (rule construct_stages)
  have "ramping_enabled self" using assms(2,3) by (simp add: ramping_enabled_def)
  with r have d: "define_ramping_rates self b3 dat = Inr b'" by simp
  from define_ramping_rates_unconditional[OF d assms(4)]
  obtain rt' rr where rt': "ramping_time (dynamics self) = Some rt'"
    and rr': "ramping_rate self rt' = Inr rr"
    and down: "const_ramping_down_rate b' =
       map (\<lambda>t. Le (Neg rr) (Sub (V (?aux t ?main)) (V (?aux (t - 1) ?main)))) (filter (\<lambda>t. 1 < t) ?ts)"
    and up: "const_ramping_up_rate b' =
       map (\<lambda>t. Le (Sub (V (?aux t ?main)) (V (?aux (t - 1) ?main))) rr) (filter (\<lambda>t. 1 < t) ?ts)"
    by this
  from rt' assms(2) have "rt' = rt" by simp
  with rr' have rr: "ramping_rate self rt = Inr rr" by simp
  have bound: "\<bar>\<rho> (?aux t ?main) - \<rho> (?aux (t - 1) ?main)\<bar>
          \<le> (case ref_size (dynamics self) of
                Some r \<Rightarrow> (if r \<noteq> - 1 then r / rt else \<rho> Var_size / rt)
              | None \<Rightarrow> \<rho> Var_size / rt)" if t: "1 < t"
  proof -
    from assms(5) have sd: "sat_all \<rho> (const_ramping_down_rate b')"
      and su: "sat_all \<rho> (const_ramping_up_rate b')" by (simp_all add: sat_block_def)
    have tf: "t \<in> set (filter (\<lambda>t. 1 < t) ?ts)" using assms(6) t by simp
    have "Le (Neg rr) (Sub (V (?aux t ?main)) (V (?aux (t - 1) ?main))) \<in> set (const_ramping_down_rate b')"
      unfolding down set_map using tf by (rule rev_image_eqI) (rule refl)
    from sat_all_mem[OF sd this]
    have lo: "- evalE \<rho> rr \<le> \<rho> (?aux t ?main) - \<rho> (?aux (t - 1) ?main)" by simp
    have "Le (Sub (V (?aux t ?main)) (V (?aux (t - 1) ?main))) rr \<in> set (const_ramping_up_rate b')"
      unfolding up set_map using tf by (rule rev_image_eqI) (rule refl)
    from sat_all_mem[OF su this]
    have hi: "\<rho> (?aux t ?main) - \<rho> (?aux (t - 1) ?main) \<le> evalE \<rho> rr" by simp
    from lo hi have "\<bar>\<rho> (?aux t ?main) - \<rho> (?aux (t - 1) ?main)\<bar> \<le> evalE \<rho> rr" by linarith
    then show ?thesis by (simp only: ramping_rate_value(2)[OF rr])
  qed
  have shape: "\<exists>rr. \<exists>s\<in>set ?ts. 1 < s \<and>
              (c = Le (Neg rr) (Sub (V (?aux s ?main)) (V (?aux (s - 1) ?main))) \<or>
               c = Le (Sub (V (?aux s ?main)) (V (?aux (s - 1) ?main))) rr)"
    if c: "c \<in> set (const_ramping_down_rate b' @ const_ramping_up_rate b')" for c
  proof -
    from c obtain s where "s \<in> set (filter (\<lambda>t. 1 < t) ?ts)"
      "c = Le (Neg rr) (Sub (V (?aux s ?main)) (V (?aux (s - 1) ?main))) \<or>
       c = Le (Sub (V (?aux s ?main)) (V (?aux (s - 1) ?main))) rr"
      unfolding down up set_append set_map by blast
    then have "s \<in> set ?ts \<and> 1 < s \<and>
      (c = Le (Neg rr) (Sub (V (?aux s ?main)) (V (?aux (s - 1) ?main))) \<or>
       c = Le (Sub (V (?aux s ?main)) (V (?aux (s - 1) ?main))) rr)" by simp
    then show ?thesis by blast
  qed
  show ?thesis
  proof (intro conjI impI ballI)
    assume "1 < t" then show "\<bar>\<rho> (?aux t ?main) - \<rho> (?aux (t - 1) ?main)\<bar>
          \<le> (case ref_size (dynamics self) of
                Some r \<Rightarrow> (if r \<noteq> - 1 then r / rt else \<rho> Var_size / rt)
              | None \<Rightarrow> \<rho> Var_size / rt)" by (rule bound)
  next
    fix c assume "c \<in> set (const_ramping_down_rate b' @ const_ramping_up_rate b')"
    then show "\<exists>rr. \<exists>s\<in>set ?ts. 1 < s \<and>
              (c = Le (Neg rr) (Sub (V (?aux s ?main)) (V (?aux (s - 1) ?main))) \<or>
               c = Le (Sub (V (?aux s ?main)) (V (?aux (s - 1) ?main))) rr)" by (rule shape)
  qed
qed


theorem ramping_bound_witness:
  "\<not> isl (construct_tech_model boiler boiler_block no_typical_days) \<and>
   ramping_time (dynamics boiler) = Some 2 \<and> (2 :: real) \<noteq> - 1 \<and>
   \<not> integer_coupled boiler \<and>
   sat_block boiler_assignment (projr (construct_tech_model boiler boiler_block no_typical_days)) \<and>
   (1 :: int) < 2 \<and>
   \<bar>boiler_assignment (Input 2 ''gas'') - boiler_assignment (Input 1 ''gas'')\<bar>
     \<le> boiler_assignment Var_size / 2"
proof -
  have c: "construct_tech_model boiler boiler_block no_typical_days =
             Inr (projr (construct_tech_model boiler boiler_block no_typical_days))"
    by (simp add: boiler_construct)
  have n: "\<not> isl (construct_tech_model boiler boiler_block no_typical_days)"
    by (simp add: boiler_construct)
  have t: "2 \<in> set (if typicaldays_N no_typical_days = 0 then set_t_performance boiler
                          else set_t_full boiler)"
    by (simp add: boiler_facts)
  have "\<bar>boiler_assignment (Input 2 ''gas'') - boiler_assignment (Input 1 ''gas'')\<bar>
     \<le> boiler_assignment Var_size / 2"
    using ramping_bound [OF c boiler_facts(1) _ boiler_facts(2) boiler_sat t]
    by (simp add: boiler_facts)
  with n boiler_sat boiler_facts(1,2) show ?thesis by simp
qed

text \<open>
  Claim C9. For performance function type 1 the disjunction of the ramping coupled to the
  on-indicator is never built, whatever \<open>ramping_const_int\<close> is: the technology model
  leaves \<open>dis_ramping_operation_on\<close> as it found it. Whenever ramping is enabled, the
  unconditional lower and upper ramping constraints are emitted instead, one of each
  for every step \<open>t > 1\<close> of the ramping series.
\<close>

theorem type_1_ramping_unconditional:
  assumes "construct_tech_model self b dat = Inr b'"
      and "performance_function_type (component_options self) = 1"
  shows "dis_ramping_operation_on b' = dis_ramping_operation_on b \<and>
         (ramping_enabled self \<longrightarrow>
            (\<exists>rt rr. ramping_time (dynamics self) = Some rt \<and> ramping_rate self rt = Inr rr \<and>
               const_ramping_down_rate b' =
                 map (\<lambda>t. Le (Neg rr)
                        (Sub (V ((if typicaldays_N dat = 0 then Input else Var_input_rr_full) t
                                  (main_input_carrier (component_options self))))
                             (V ((if typicaldays_N dat = 0 then Input else Var_input_rr_full) (t - 1)
                                  (main_input_carrier (component_options self))))))
                   (filter (\<lambda>t. 1 < t)
                      (if typicaldays_N dat = 0 then set_t_performance self else set_t_full self)) \<and>
               const_ramping_up_rate b' =
                 map (\<lambda>t. Le (Sub (V ((if typicaldays_N dat = 0 then Input else Var_input_rr_full) t
                                  (main_input_carrier (component_options self))))
                             (V ((if typicaldays_N dat = 0 then Input else Var_input_rr_full) (t - 1)
                                  (main_input_carrier (component_options self)))))
                        rr)
                   (filter (\<lambda>t. 1 < t)
                      (if typicaldays_N dat = 0 then set_t_performance self else set_t_full self))))"
proof -
  from assms(1) obtain b1 b2 b3 where
    p: "performance_function self b = Inr b1" and
    i: "input_ratio_constraints self b1 = Inr b2" and
    s: "size_constraint self b2 = Inr b3" and
    r: "(if ramping_enabled self then define_ramping_rates self b3 dat else Inr b3) = Inr b'"
    by (rule construct_stages)
  have nic: "\<not> integer_coupled self" using assms(2) by (simp add: integer_coupled_def)
  from p assms(2) have 1: "dis_ramping_operation_on b1 = dis_ramping_operation_on b"
    by (auto simp: performance_function_def performance_function_type_1_def Let_def bind_err_Inr
          split: if_splits)
  from i have 2: "dis_ramping_operation_on b2 = dis_ramping_operation_on b1"
    by (auto simp: input_ratio_constraints_def bind_err_Inr split: if_splits)
  from s have 3: "dis_ramping_operation_on b3 = dis_ramping_operation_on b2"
    by (auto simp: size_constraint_eq)
  show ?thesis
  proof (cases "ramping_enabled self")
    case False
    with r 1 2 3 show ?thesis by simp
  next
    case True
    with r have d: "define_ramping_rates self b3 dat = Inr b'" by simp
    from define_ramping_rates_unconditional[OF d nic]
    obtain rt rr where
      "ramping_time (dynamics self) = Some rt" "ramping_rate self rt = Inr rr"
      "dis_ramping_operation_on b' = dis_ramping_operation_on b3"
      "const_ramping_down_rate b' =
         map (\<lambda>t. Le (Neg rr)
                (Sub (V ((if typicaldays_N dat = 0 then Input else Var_input_rr_full) t
                          (main_input_carrier (component_options self))))
                     (V ((if typicaldays_N dat = 0 then Input else Var_input_rr_full) (t - 1)
                          (main_input_carrier (component_options self))))))
           (filter (\<lambda>t. 1 < t)
              (if typicaldays_N dat = 0 then set_t_performance self else set_t_full self))"
      "const_ramping_up_rate b' =
         map (\<lambda>t. Le (Sub (V ((if typicaldays_N dat = 0 then Input else Var_input_rr_full) t
                          (main_input_carrier (component_options self))))
                     (V ((if typicaldays_N dat = 0 then Input else Var_input_rr_full) (t - 1)
                          (main_input_carrier (component_options self)))))
                rr)
           (filter (\<lambda>t. 1 < t)
              (if typicaldays_N dat = 0 then set_t_performance self else set_t_full self))"
      by this
    with 1 2 3 show ?thesis by (intro conjI impI exI[of _ rt] exI[of _ rr]) simp_all
  qed
qed

theorem type_1_ramping_unconditional_witness:
  "\<not> isl (construct_tech_model boiler boiler_block no_typical_days) \<and>
   performance_function_type (component_options boiler) = 1 \<and>
   ramping_const_int (dynamics boiler) = Some 1 \<and>
   ramping_enabled boiler \<and>
   dis_ramping_operation_on (projr (construct_tech_model boiler boiler_block no_typical_days)) = [] \<and>
   const_ramping_up_rate (projr (construct_tech_model boiler boiler_block no_typical_days)) =
     [Le (Sub (V (Input 2 ''gas'')) (V (Input 1 ''gas''))) (Div (V Var_size) (Num 2))]"
proof -
  have c: "construct_tech_model boiler boiler_block no_typical_days =
             Inr (projr (construct_tech_model boiler boiler_block no_typical_days))"
    by (simp add: boiler_construct)
  have n: "\<not> isl (construct_tech_model boiler boiler_block no_typical_days)"
    by (simp add: boiler_construct)
  have e: "ramping_enabled boiler" by (simp add: ramping_enabled_def boiler_facts)
  have rr: "ramping_rate boiler 2 = Inr (Div (V Var_size) (Num 2))"
    by (simp add: ramping_rate_def boiler_facts)
  have d: "dis_ramping_operation_on boiler_block = []" by (simp add: boiler_block_def)
  from type_1_ramping_unconditional [OF c boiler_facts(5)] e
  have "dis_ramping_operation_on (projr (construct_tech_model boiler boiler_block no_typical_days)) = []"
       "const_ramping_up_rate (projr (construct_tech_model boiler boiler_block no_typical_days)) =
     [Le (Sub (V (Input 2 ''gas'')) (V (Input 1 ''gas''))) (Div (V Var_size) (Num 2))]"
    by (auto simp: boiler_facts rr d)
  with n e boiler_facts(5,6) show ?thesis by simp
qed

subsection \<open>Disjuncts of the performance functions\<close>

lemma gdp_Disjunct_disjunct:
  assumes "gdp_Disjunct set_t inds rule = Inr djs" "(t, ds) \<in> set djs" "(ind, cs) \<in> set ds"
  shows "t \<in> set set_t \<and> ind \<in> set inds \<and> rule t ind = Inr cs"
proof -
  from assms(1,2) have t: "t \<in> set set_t"
    and l: "list_all2 (\<lambda>ind d. fst d = ind \<and> rule t ind = Inr (snd d)) inds ds"
    by (simp_all add: gdp_Disjunct_set)
  from assms(3) obtain i where i: "i < length ds" "ds ! i = (ind, cs)"
    by (auto simp: in_set_conv_nth)
  with l have "i < length inds" "inds ! i = ind" "rule t ind = Inr cs"
    by (auto simp: list_all2_conv_all_nth)
  with t show ?thesis by (metis nth_mem)
qed

lemma gdp_Disjunct_indicator:
  assumes "gdp_Disjunct set_t inds rule = Inr djs" "(t, ds) \<in> set djs" "ind \<in> set inds"
  shows "\<exists>cs. (ind, cs) \<in> set ds \<and> rule t ind = Inr cs"
proof -
  from assms(1,2)
  have l: "list_all2 (\<lambda>ind d. fst d = ind \<and> rule t ind = Inr (snd d)) inds ds"
    by (simp add: gdp_Disjunct_set)
  from assms(3) obtain i where i: "i < length inds" "inds ! i = ind"
    by (auto simp: in_set_conv_nth)
  with l have "i < length ds" "fst (ds ! i) = ind" "rule t ind = Inr (snd (ds ! i))"
    by (auto simp: list_all2_conv_all_nth)
  then have "(ind, snd (ds ! i)) \<in> set ds" by (metis nth_mem prod.collapse)
  with \<open>rule t ind = Inr (snd (ds ! i))\<close> show ?thesis by blast
qed

lemma init_input_off_eq: "init_input_off t = (\<lambda>car. Inr (Some (Eq (V (Input t car)) (Num 0))))"
  by (simp add: fun_eq_iff init_input_off_def emit_def)

lemma init_output_off_eq: "init_output_off t = (\<lambda>car. Inr (Some (Eq (V (Output t car)) (Num 0))))"
  by (simp add: fun_eq_iff init_output_off_def emit_def)

lemma init_standby_power_eq:
  "init_standby_power self t =
     (\<lambda>car. Inr (Some (if car = main_input_carrier (component_options self)
                        then Eq (V (Input t (car_standby_power self)))
                               (Mul (Mul (Num (standby_power (time_independent self))) (V Var_size))
                                  (Num (rated_power self)))
                        else Eq (V (Input t car)) (Num 0))))"
  by (simp add: fun_eq_iff init_standby_power_def emit_def)

lemma disjunct_off_eq:
  "disjunct_off self b t =
     Inr (Eq (V (Var_x t)) (Num 0)
          # (if standby_power (time_independent self) = - 1
             then map (\<lambda>car. Eq (V (Input t car)) (Num 0)) (set_input_carriers b)
             else map (\<lambda>car. if car = main_input_carrier (component_options self)
                              then Eq (V (Input t (car_standby_power self)))
                                     (Mul (Mul (Num (standby_power (time_independent self)))
                                             (V Var_size))
                                        (Num (rated_power self)))
                              else Eq (V (Input t car)) (Num 0)) (set_input_carriers b))
          @ map (\<lambda>car. Eq (V (Output t car)) (Num 0)) (set_output_carriers b))"
  by (simp add: disjunct_off_def init_input_off_eq init_output_off_eq init_standby_power_eq
        pyo_Constraint_total map_filter_Some)

lemma segment_on_x:
  "segment_on self b d bp t ind = Inr cs \<Longrightarrow> Eq (V (Var_x t)) (Num 1) \<in> set cs"
  by (auto simp: segment_on_def Let_def bind_err_Inr)

lemma init_input_output_2_x:
  "init_input_output_2 self b alpha t ind = Inr cs \<Longrightarrow>
     Eq (V (Var_x t)) (Num 0) \<in> set cs \<or> Eq (V (Var_x t)) (Num 1) \<in> set cs"
  by (auto simp: init_input_output_2_def disjunct_off_eq bind_err_Inr split: if_splits)

lemma init_input_output_3_x:
  "init_input_output_3 self b d bp t ind = Inr cs \<Longrightarrow>
     Eq (V (Var_x t)) (Num 0) \<in> set cs \<or> Eq (V (Var_x t)) (Num 1) \<in> set cs"
  by (auto simp: init_input_output_3_def disjunct_off_eq split: if_splits dest: segment_on_x)

lemma init_SUSD_trajectories_x:
  assumes "init_SUSD_trajectories self b d bp su sd t ind = Inr cs" "0 \<le> ind"
  shows "Eq (V (Var_x t)) (Num 0) \<in> set cs \<or> Eq (V (Var_x t)) (Num 1) \<in> set cs"
proof -
  consider "ind = 0" | "1 \<le> ind \<and> ind < su + 1" | "su + 1 \<le> ind \<and> ind < su + sd + 1"
    | "ind \<noteq> 0" "\<not> (1 \<le> ind \<and> ind < su + 1)" "\<not> (su + 1 \<le> ind \<and> ind < su + sd + 1)" "ind > su + sd"
    using assms(2) by linarith
  then show ?thesis
  proof cases
    case 1
    with assms(1) show ?thesis
      by (auto simp: init_SUSD_trajectories_def Let_def bind_err_Inr)
  next
    case 2
    with assms(1) show ?thesis
      by (auto simp: init_SUSD_trajectories_def Let_def bind_err_Inr)
  next
    case 3
    with assms(1) show ?thesis
      by (auto simp: init_SUSD_trajectories_def Let_def bind_err_Inr split: if_splits)
  next
    case 4
    with assms(1) have "segment_on self b d bp t (ind - (su + sd)) = Inr cs"
      by (simp add: init_SUSD_trajectories_def Let_def split: if_splits)
    then show ?thesis by (auto dest: segment_on_x)
  qed
qed

lemma init_SUSD_trajectories_off:
  assumes "init_SUSD_trajectories self b d bp su sd t 0 = Inr cs"
  shows "set (map (\<lambda>car. Eq (V (Input t car)) (Num 0)) (set_input_carriers b)) \<subseteq> set cs"
    and "set (map (\<lambda>car. Eq (V (Output t car)) (Num 0)) (set_output_carriers b)) \<subseteq> set cs"
  using assms
  by (auto simp: init_SUSD_trajectories_def Let_def bind_err_Inr init_input_off_eq
        init_output_off_eq pyo_Constraint_total map_filter_Some)

lemma declare_var_x_carriers [simp]:
  "set_input_carriers (declare_var_x self b) = set_input_carriers b"
  "set_output_carriers (declare_var_x self b) = set_output_carriers b"
  by (simp_all add: declare_var_x_def split: option.splits)

lemma performance_function_2:
  assumes "performance_function self b = Inr b1"
      and "performance_function_type (component_options self) = 2"
  obtains alpha where
    "gdp_Disjunct (set_t_performance self) (py_range 0 2)
       (init_input_output_2 self (declare_var_x self b) alpha) = Inr (dis_input_output b1)"
    "var_x b1 = var_x (declare_var_x self b)"
  using assms
  by (auto simp: performance_function_def performance_function_type_2_def Let_def bind_err_Inr)

lemma performance_function_3:
  assumes "performance_function self b = Inr b1"
      and "performance_function_type (component_options self) = 3"
  obtains d bp where
    "gdp_Disjunct (set_t_performance self) (py_range 0 (int (length bp)))
       (init_input_output_3 self (declare_var_x self b) d bp) = Inr (dis_input_output b1)"
    "var_x b1 = var_x (declare_var_x self b)"
  using assms
  by (auto simp: performance_function_def performance_function_type_3_def Let_def bind_err_Inr)

lemma performance_function_4:
  assumes "performance_function self b = Inr b1"
      and "performance_function_type (component_options self) = 4"
  obtains d bp su sd where
    "gdp_Disjunct (set_t_full self) (py_range 0 (su + sd + int (length bp)))
       (init_SUSD_trajectories self b d bp su sd) = Inr (dis_SUSD_trajectory b1)"
  using assms
  by (auto simp: performance_function_def performance_function_type_4_def Let_def bind_err_Inr)

lemma input_ratio_constraints_frame:
  assumes "input_ratio_constraints self b = Inr b'"
  shows "dis_input_output b' = dis_input_output b"
    and "dis_SUSD_trajectory b' = dis_SUSD_trajectory b"
    and "var_x b' = var_x b"
  using assms by (auto simp: input_ratio_constraints_def bind_err_Inr split: if_splits)

lemma construct_frame:
  assumes "construct_tech_model self b dat = Inr b'"
  obtains b1 where
    "performance_function self b = Inr b1"
    "dis_input_output b' = dis_input_output b1"
    "dis_SUSD_trajectory b' = dis_SUSD_trajectory b1"
    "var_x b' = var_x b1"
proof -
  from assms obtain b1 b2 b3 where
    p: "performance_function self b = Inr b1" and
    i: "input_ratio_constraints self b1 = Inr b2" and
    s: "size_constraint self b2 = Inr b3" and
    r: "(if ramping_enabled self then define_ramping_rates self b3 dat else Inr b3) = Inr b'"
    by (rule construct_stages)
  note f2 = input_ratio_constraints_frame[OF i]
  from s have f3: "dis_input_output b3 = dis_input_output b2"
    "dis_SUSD_trajectory b3 = dis_SUSD_trajectory b2" "var_x b3 = var_x b2"
    by (auto simp: size_constraint_eq)
  from r have f4: "dis_input_output b' = dis_input_output b3"
    "dis_SUSD_trajectory b' = dis_SUSD_trajectory b3" "var_x b' = var_x b3"
    by (auto split: if_splits dest: define_ramping_rates_frame)
  show ?thesis
    by (rule that[OF p]) (simp_all add: f2 f3 f4)
qed

lemma py_range_nonneg: "ind \<in> set (py_range 0 n) \<Longrightarrow> 0 \<le> ind"
  by (simp add: py_range_def)

lemma sat_disjunctions_mem:
  "sat_disjunctions \<rho> djs \<Longrightarrow> (t, ds) \<in> set djs \<Longrightarrow> \<exists>d\<in>set ds. sat_all \<rho> (snd d)"
  by (fastforce simp: sat_disjunctions_def sat_disjunction_def list_all_iff list_ex_iff)

text \<open>Every disjunct of the performance function pins the on-indicator.\<close>

lemma disjuncts_pin_x:
  assumes "construct_tech_model self b dat = Inr b'"
      and "performance_function_type (component_options self) \<in> {2, 3, 4}"
      and "(t, ds) \<in> set (if performance_function_type (component_options self) = 4
                            then dis_SUSD_trajectory b' else dis_input_output b')"
      and "(ind, cs) \<in> set ds"
  shows "Eq (V (Var_x t)) (Num 0) \<in> set cs \<or> Eq (V (Var_x t)) (Num 1) \<in> set cs"
proof -
  from assms(1) obtain b1 where
    p: "performance_function self b = Inr b1" and
    f: "dis_input_output b' = dis_input_output b1" "dis_SUSD_trajectory b' = dis_SUSD_trajectory b1"
    by (rule construct_frame)
  from assms(2) consider "performance_function_type (component_options self) = 2"
    | "performance_function_type (component_options self) = 3"
    | "performance_function_type (component_options self) = 4" by auto
  then show ?thesis
  proof cases
    case 1
    from performance_function_2[OF p 1] obtain alpha where
      g: "gdp_Disjunct (set_t_performance self) (py_range 0 2)
         (init_input_output_2 self (declare_var_x self b) alpha) = Inr (dis_input_output b1)" by metis
    from assms(3) 1 f have "(t, ds) \<in> set (dis_input_output b1)" by simp
    from gdp_Disjunct_disjunct[OF g this assms(4)] show ?thesis
      by (auto dest: init_input_output_2_x)
  next
    case 2
    from performance_function_3[OF p 2] obtain d bp where
      g: "gdp_Disjunct (set_t_performance self) (py_range 0 (int (length bp)))
       (init_input_output_3 self (declare_var_x self b) d bp) = Inr (dis_input_output b1)" by metis
    from assms(3) 2 f have "(t, ds) \<in> set (dis_input_output b1)" by simp
    from gdp_Disjunct_disjunct[OF g this assms(4)] show ?thesis
      by (auto dest: init_input_output_3_x)
  next
    case 3
    from performance_function_4[OF p 3] obtain d bp su sd where
      g: "gdp_Disjunct (set_t_full self) (py_range 0 (su + sd + int (length bp)))
       (init_SUSD_trajectories self b d bp su sd) = Inr (dis_SUSD_trajectory b1)" by metis
    from assms(3) 3 f have "(t, ds) \<in> set (dis_SUSD_trajectory b1)" by simp
    from gdp_Disjunct_disjunct[OF g this assms(4)]
    have "ind \<in> set (py_range 0 (su + sd + int (length bp)))"
      "init_SUSD_trajectories self b d bp su sd t ind = Inr cs" by simp_all
    from init_SUSD_trajectories_x[OF this(2) py_range_nonneg[OF this(1)]]
    show ?thesis .
  qed
qed

lemma disjunction_exists:
  assumes "construct_tech_model self b dat = Inr b'"
      and "performance_function_type (component_options self) \<in> {2, 3, 4}"
      and "t \<in> set (if performance_function_type (component_options self) = 4
                      then set_t_full self else set_t_performance self)"
  shows "\<exists>ds. (t, ds) \<in> set (if performance_function_type (component_options self) = 4
                            then dis_SUSD_trajectory b' else dis_input_output b')"
proof -
  from assms(1) obtain b1 where
    p: "performance_function self b = Inr b1" and
    f: "dis_input_output b' = dis_input_output b1" "dis_SUSD_trajectory b' = dis_SUSD_trajectory b1"
    by (rule construct_frame)
  from assms(2) consider "performance_function_type (component_options self) = 2"
    | "performance_function_type (component_options self) = 3"
    | "performance_function_type (component_options self) = 4" by auto
  then show ?thesis
  proof cases
    case 1
    from performance_function_2[OF p 1] obtain alpha where
      g: "gdp_Disjunct (set_t_performance self) (py_range 0 2)
         (init_input_output_2 self (declare_var_x self b) alpha) = Inr (dis_input_output b1)" by metis
    from gdp_Disjunct_ex[OF g] assms(3) 1 f show ?thesis by simp
  next
    case 2
    from performance_function_3[OF p 2] obtain d bp where
      g: "gdp_Disjunct (set_t_performance self) (py_range 0 (int (length bp)))
       (init_input_output_3 self (declare_var_x self b) d bp) = Inr (dis_input_output b1)" by metis
    from gdp_Disjunct_ex[OF g] assms(3) 2 f show ?thesis by simp
  next
    case 3
    from performance_function_4[OF p 3] obtain d bp su sd where
      g: "gdp_Disjunct (set_t_full self) (py_range 0 (su + sd + int (length bp)))
       (init_SUSD_trajectories self b d bp su sd) = Inr (dis_SUSD_trajectory b1)" by metis
    from gdp_Disjunct_ex[OF g] assms(3) 3 f show ?thesis by simp
  qed
qed

subsection \<open>The on-indicator\<close>

text \<open>
  Claim C8. For the performance function types 2, 3 and 4, every assignment that satisfies
  the block gives the on-indicator \<open>x[t]\<close> the value 0 or 1 at every time step of the
  disjunction (the performance time steps for types 2 and 3, the full time steps for
  type 4), because every disjunct of every time step holds \<open>var_x[t] == 0\<close> or
  \<open>var_x[t] == 1\<close>; and this although types 2 and 3 declare \<open>var_x\<close>, when the block does
  not have it yet, as a real variable with bounds 0 and 1.
\<close>

theorem on_indicator_integral:
  assumes "construct_tech_model self b dat = Inr b'"
      and "performance_function_type (component_options self) \<in> {2, 3, 4}"
      and "sat_block \<rho> b'"
      and "t \<in> set (if performance_function_type (component_options self) = 4
                      then set_t_full self else set_t_performance self)"
  shows "(\<rho> (Var_x t) = 0 \<or> \<rho> (Var_x t) = 1) \<and>
         (\<forall>(s, ds)\<in>set (if performance_function_type (component_options self) = 4
                          then dis_SUSD_trajectory b' else dis_input_output b').
            \<forall>(ind, cs)\<in>set ds.
              Eq (V (Var_x s)) (Num 0) \<in> set cs \<or> Eq (V (Var_x s)) (Num 1) \<in> set cs) \<and>
         (performance_function_type (component_options self) \<noteq> 4 \<and> var_x b = None \<longrightarrow>
            var_x b' = Some (set_t_performance self, \<lparr>lower = 0, upper = 1\<rparr>))"
proof (intro conjI)
  let ?djs = "if performance_function_type (component_options self) = 4
              then dis_SUSD_trajectory b' else dis_input_output b'"
  from disjunction_exists[OF assms(1,2,4)] obtain ds where ds: "(t, ds) \<in> set ?djs" by blast
  from assms(3) have "sat_disjunctions \<rho> ?djs" by (simp add: sat_block_def)
  from sat_disjunctions_mem[OF this ds] obtain ind cs where
    d: "(ind, cs) \<in> set ds" and s: "sat_all \<rho> cs" by auto
  from disjuncts_pin_x[OF assms(1,2) ds d] sat_all_mem[OF s]
  show "\<rho> (Var_x t) = 0 \<or> \<rho> (Var_x t) = 1" by fastforce
next
  show "\<forall>(s, ds)\<in>set (if performance_function_type (component_options self) = 4
                          then dis_SUSD_trajectory b' else dis_input_output b').
            \<forall>(ind, cs)\<in>set ds.
              Eq (V (Var_x s)) (Num 0) \<in> set cs \<or> Eq (V (Var_x s)) (Num 1) \<in> set cs"
    using disjuncts_pin_x[OF assms(1,2)] by blast
next
  show "performance_function_type (component_options self) \<noteq> 4 \<and> var_x b = None \<longrightarrow>
            var_x b' = Some (set_t_performance self, \<lparr>lower = 0, upper = 1\<rparr>)"
  proof
    assume h: "performance_function_type (component_options self) \<noteq> 4 \<and> var_x b = None"
    from assms(1) obtain b1 where
      p: "performance_function self b = Inr b1" and f: "var_x b' = var_x b1"
      by (rule construct_frame)
    from h assms(2) consider "performance_function_type (component_options self) = 2"
      | "performance_function_type (component_options self) = 3" by auto
    then have "var_x b1 = var_x (declare_var_x self b)"
    proof cases
      case 1 from performance_function_2[OF p 1] show ?thesis by metis
    next
      case 2 from performance_function_3[OF p 2] show ?thesis by metis
    qed
    with h f show "var_x b' = Some (set_t_performance self, \<lparr>lower = 0, upper = 1\<rparr>)"
      by (simp add: declare_var_x_def)
  qed
qed


subsection \<open>Evaluating the model on the variants of the boiler\<close>

lemmas model_defs_4 =
  init_SUSD_trajectories_def output_first_segment_def adjust_SU_SD_def SU_trajectory_def
  SD_trajectory_def trajectory_at_def index_SU_def index_SD_def

lemma standby_boiler_construct:
  "construct_tech_model standby_boiler boiler_block no_typical_days = Inr standby_boiler_model"
  by (simp add: model_defs boiler_defs standby_boiler_def standby_boiler_model_def upto.simps)

lemma trajectory_boiler_construct:
  "construct_tech_model trajectory_boiler boiler_block no_typical_days = Inr trajectory_boiler_model"
  by (simp add: model_defs model_defs_4 boiler_defs trajectory_boiler_def
        trajectory_boiler_model_def upto.simps)

lemma running_standby_boiler: "sat_block running standby_boiler_model"
  by (simp add: standby_boiler_model_def sat_block_def sat_all_def sat_disjunctions_def
        sat_disjunction_def sat_var_x_def sat_var_input_rr_full_def sat_bounds_def running_def)


lemma standby_boiler_facts:
  "performance_function_type (component_options standby_boiler) = 2"
  "set_t_performance standby_boiler = [1, 2]"
  "main_input_carrier (component_options standby_boiler) = ''gas''"
  "car_standby_power standby_boiler = ''electricity''"
  "standby_power (time_independent standby_boiler) = 1 / 10"
  "rated_power standby_boiler = 1 / 2"
  "phi (time_independent standby_boiler) = [(''gas'', 2), (''electricity'', 3)]"
  by (simp_all add: standby_boiler_def boiler_def boiler_options_def boiler_coeff_def
        car_standby_power_def)

theorem on_indicator_integral_witness:
  "construct_tech_model standby_boiler boiler_block no_typical_days = Inr standby_boiler_model \<and>
   performance_function_type (component_options standby_boiler) = 2 \<and>
   sat_block running standby_boiler_model \<and>
   running (Var_x 1) = 1 \<and>
   var_x standby_boiler_model = Some ([1, 2], \<lparr>lower = 0, upper = 1\<rparr>)"
proof -
  have t: "1 \<in> set (if performance_function_type (component_options standby_boiler) = 4
                      then set_t_full standby_boiler else set_t_performance standby_boiler)"
    by (simp add: standby_boiler_facts)
  have p: "performance_function_type (component_options standby_boiler) \<in> {2, 3, 4}"
    by (simp add: standby_boiler_facts)
  have "running (Var_x 1) = 0 \<or> running (Var_x 1) = 1"
    using on_indicator_integral [OF standby_boiler_construct p running_standby_boiler t] by blast
  moreover have "running (Var_x 1) \<noteq> 0" by (simp add: running_def)
  moreover have "var_x standby_boiler_model = Some ([1, 2], \<lparr>lower = 0, upper = 1\<rparr>)"
    by (simp add: standby_boiler_model_def)
  ultimately show ?thesis
    using standby_boiler_construct running_standby_boiler standby_boiler_facts(1) by simp
qed

subsection \<open>Ratios of the inputs\<close>

text \<open>
  Claim C1 at a failing input: a boiler of type 2 whose standby power is drawn from the
  electricity input, not from the main input gas. The on disjunct of the input ratios ties
  gas to electricity by the ratio of gas and leaves electricity without a ratio to gas.
  The assignment satisfies the whole block with the boiler on, and the electricity input
  is not the ratio of electricity times the gas input.
\<close>

theorem input_ratio_standby_carrier:
  "construct_tech_model standby_boiler boiler_block no_typical_days = Inr standby_boiler_model \<and>
   standby_power (time_independent standby_boiler) = 1 / 10 \<and>
   standby_power_carrier (component_options standby_boiler) = Some ''electricity'' \<and>
   main_input_carrier (component_options standby_boiler) = ''gas'' \<and>
   lookup (phi (time_independent standby_boiler)) ''electricity'' = Inr 3 \<and>
   dis_input_input standby_boiler_model =
     [(1, [(0, [Eq (V (Var_x 1)) (Num 0), Eq (V (Input 1 ''gas'')) (Num 0)]),
           (1, [Eq (V (Var_x 1)) (Num 1),
                Eq (V (Input 1 ''gas'')) (Mul (Num 2) (V (Input 1 ''electricity'')))])]),
      (2, [(0, [Eq (V (Var_x 2)) (Num 0), Eq (V (Input 2 ''gas'')) (Num 0)]),
           (1, [Eq (V (Var_x 2)) (Num 1),
                Eq (V (Input 2 ''gas'')) (Mul (Num 2) (V (Input 2 ''electricity'')))])])] \<and>
   sat_block running standby_boiler_model \<and>
   running (Var_x 1) = 1 \<and>
   running (Input 1 ''electricity'') \<noteq> 3 * running (Input 1 ''gas'')"
  using standby_boiler_construct running_standby_boiler
  by (simp add: standby_boiler_facts lookup_def)
     (simp add: standby_boiler_model_def running_def standby_boiler_def boiler_options_def)

lemma pyo_Constraint_rule:
  assumes "pyo_Constraint index rule = Inr cs" "i \<in> set index"
  obtains r where "rule i = Inr r" "\<And>c. r = Some c \<Longrightarrow> c \<in> set cs"
proof -
  from assms(1) obtain rs where rs: "mapM rule index = Inr rs"
    by (auto simp: pyo_Constraint_def bind_err_Inr)
  from mapM_Inr_ex[OF rs assms(2)] obtain r where r: "rule i = Inr r" by blast
  have "c \<in> set cs" if "r = Some c" for c
    using that r assms(2) by (auto simp: pyo_Constraint_set[OF assms(1)])
  with r show ?thesis by (rule that)
qed

lemma performance_function_carriers:
  assumes "performance_function self b = Inr b1"
  shows "set_input_carriers b1 = set_input_carriers b"
  using assms
  by (auto simp: performance_function_def performance_function_type_1_def
        performance_function_type_2_def performance_function_type_3_def
        performance_function_type_4_def Let_def bind_err_Inr split: if_splits)

lemma construct_input_ratios:
  assumes "construct_tech_model self b dat = Inr b'"
  shows "\<exists>b1. set_input_carriers b1 = set_input_carriers b \<and>
    (standby_power (time_independent self) = - 1 \<longrightarrow>
       pyo_Constraint (List.product (set_t_performance self) (set_input_carriers b1))
         (init_input_input self) = Inr (const_input_input b')) \<and>
    (standby_power (time_independent self) \<noteq> - 1 \<longrightarrow>
       gdp_Disjunct (set_t_performance self) (py_range 0 2) (init_input_input_dis self b1)
         = Inr (dis_input_input b'))"
proof -
  from assms obtain b1 b2 b3 where
    p: "performance_function self b = Inr b1" and
    i: "input_ratio_constraints self b1 = Inr b2" and
    s: "size_constraint self b2 = Inr b3" and
    r: "(if ramping_enabled self then define_ramping_rates self b3 dat else Inr b3) = Inr b'"
    by (rule construct_stages)
  from s have f3: "const_input_input b3 = const_input_input b2"
    "dis_input_input b3 = dis_input_input b2"
    by (auto simp: size_constraint_eq)
  from r have f4: "const_input_input b' = const_input_input b3"
    "dis_input_input b' = dis_input_input b3"
    by (auto split: if_splits dest: define_ramping_rates_frame)
  from i have "(standby_power (time_independent self) = - 1 \<longrightarrow>
       pyo_Constraint (List.product (set_t_performance self) (set_input_carriers b1))
         (init_input_input self) = Inr (const_input_input b')) \<and>
    (standby_power (time_independent self) \<noteq> - 1 \<longrightarrow>
       gdp_Disjunct (set_t_performance self) (py_range 0 2) (init_input_input_dis self b1)
         = Inr (dis_input_input b'))"
    by (auto simp: input_ratio_constraints_def bind_err_Inr f3 f4)
  with performance_function_carriers[OF p] show ?thesis by blast
qed

text \<open>
  Where no standby power is configured, or the standby carrier is the main input carrier,
  the ratio of every other input to the main input is as documented.
\<close>

lemma input_ratio_main_carrier:
  assumes "construct_tech_model self b dat = Inr b'"
      and "sat_block \<rho> b'"
      and "t \<in> set (set_t_performance self)"
      and "car \<in> set (set_input_carriers b)"
      and "car \<noteq> main_input_carrier (component_options self)"
      and "standby_power (time_independent self) = - 1 \<or>
           car_standby_power self = main_input_carrier (component_options self)"
  shows "\<exists>p. lookup (phi (time_independent self)) car = Inr p \<and>
           (standby_power (time_independent self) = - 1 \<longrightarrow>
              \<rho> (Input t car) = p * \<rho> (Input t (main_input_carrier (component_options self)))) \<and>
           (standby_power (time_independent self) \<noteq> - 1 \<longrightarrow>
              (\<rho> (Var_x t) = 1 \<longrightarrow>
                 \<rho> (Input t car) = p * \<rho> (Input t (main_input_carrier (component_options self)))) \<and>
              (\<rho> (Var_x t) = 0 \<longrightarrow> \<rho> (Input t car) = 0))"
proof -
  let ?main = "main_input_carrier (component_options self)"
  from construct_input_ratios[OF assms(1)] obtain b1 where
    c: "set_input_carriers b1 = set_input_carriers b" and
    u: "standby_power (time_independent self) = - 1 \<Longrightarrow>
       pyo_Constraint (List.product (set_t_performance self) (set_input_carriers b1))
         (init_input_input self) = Inr (const_input_input b')" and
    d: "standby_power (time_independent self) \<noteq> - 1 \<Longrightarrow>
       gdp_Disjunct (set_t_performance self) (py_range 0 2) (init_input_input_dis self b1)
         = Inr (dis_input_input b')"
    by blast
  show ?thesis
  proof (cases "standby_power (time_independent self) = - 1")
    case True
    have "(t, car) \<in> set (List.product (set_t_performance self) (set_input_carriers b1))"
      using assms(3,4) c by simp
    from pyo_Constraint_rule[OF u[OF True] this] obtain r where
      r: "init_input_input self (t, car) = Inr r"
         "\<And>c. r = Some c \<Longrightarrow> c \<in> set (const_input_input b')" by blast
    from r(1) assms(5) obtain p where
      p: "lookup (phi (time_independent self)) car = Inr p"
         "r = Some (Eq (V (Input t car)) (Mul (Num p) (V (Input t ?main))))"
      by (auto simp: init_input_input_def bind_err_Inr emit_def)
    from assms(2) have "sat_all \<rho> (const_input_input b')" by (simp add: sat_block_def)
    from sat_all_mem[OF this r(2)[OF p(2)]]
    have "\<rho> (Input t car) = p * \<rho> (Input t ?main)" by simp
    with p(1) True show ?thesis by simp
  next
    case False
    with assms(6) have sc: "car_standby_power self = ?main" by simp
    note g = d[OF False]
    from gdp_Disjunct_ex[OF g assms(3)] obtain ds where
      ds: "(t, ds) \<in> set (dis_input_input b')" by blast
    have "(1::int) \<in> set (py_range 0 2)" by (simp add: py_range_def)
    from gdp_Disjunct_indicator[OF g ds this] obtain cs1 where
      on: "init_input_input_dis self b1 t 1 = Inr cs1" by blast
    then obtain const_input_on where
      cio: "pyo_Constraint (set_input_carriers b1)
              (\<lambda>car_input.
                 if car_input = car_standby_power self then Skip
                 else bind_err (lookup (phi (time_independent self)) car_input) (\<lambda>p.
                        emit (Eq (V (Input t car_input))
                                (Mul (Num p) (V (Input t (car_standby_power self)))))))
            = Inr const_input_on"
      and cs1: "cs1 = Eq (V (Var_x t)) (Num 1) # const_input_on"
      by (auto simp: init_input_input_dis_def bind_err_Inr)
    have car1: "car \<in> set (set_input_carriers b1)" using assms(4) c by simp
    from pyo_Constraint_rule[OF cio car1] obtain r where
      r: "(if car = car_standby_power self then Skip
           else bind_err (lookup (phi (time_independent self)) car) (\<lambda>p.
                  emit (Eq (V (Input t car))
                          (Mul (Num p) (V (Input t (car_standby_power self))))))) = Inr r"
         "\<And>c. r = Some c \<Longrightarrow> c \<in> set const_input_on" by blast
    from r(1) assms(5) sc obtain p where
      p: "lookup (phi (time_independent self)) car = Inr p"
         "r = Some (Eq (V (Input t car)) (Mul (Num p) (V (Input t ?main))))"
      by (auto simp: bind_err_Inr emit_def)
    have ratio_on: "Eq (V (Input t car)) (Mul (Num p) (V (Input t ?main))) \<in> set cs1"
      using r(2)[OF p(2)] by (simp add: cs1)
    from assms(2) have "sat_disjunctions \<rho> (dis_input_input b')" by (simp add: sat_block_def)
    from sat_disjunctions_mem[OF this ds] obtain ind cs where
      m: "(ind, cs) \<in> set ds" and s: "sat_all \<rho> cs" by auto
    from gdp_Disjunct_disjunct[OF g ds m]
    have ind: "ind = 0 \<or> ind = 1" and rule: "init_input_input_dis self b1 t ind = Inr cs"
      by (auto simp: py_range_def upto.simps)
    have x_on: "\<rho> (Input t car) = p * \<rho> (Input t ?main)" if x: "\<rho> (Var_x t) = 1"
    proof -
      have "ind \<noteq> 0"
      proof
        assume "ind = 0"
        with rule have "Eq (V (Var_x t)) (Num 0) \<in> set cs"
          by (auto simp: init_input_input_dis_def bind_err_Inr)
        from sat_all_mem[OF s this] x show False by simp
      qed
      with ind rule on have "cs = cs1" by simp
      with ratio_on sat_all_mem[OF s] show ?thesis by fastforce
    qed
    have x_off: "\<rho> (Input t car) = 0" if x: "\<rho> (Var_x t) = 0"
    proof -
      have "ind \<noteq> 1"
      proof
        assume "ind = 1"
        with rule have "Eq (V (Var_x t)) (Num 1) \<in> set cs"
          by (auto simp: init_input_input_dis_def bind_err_Inr)
        from sat_all_mem[OF s this] x show False by simp
      qed
      with ind rule obtain const_input_off where
        cio0: "pyo_Constraint (set_input_carriers b1)
                 (\<lambda>car_input. if car_input = car_standby_power self then Skip
                               else emit (Eq (V (Input t car_input)) (Num 0)))
               = Inr const_input_off"
        and cs0: "cs = Eq (V (Var_x t)) (Num 0) # const_input_off"
        by (auto simp: init_input_input_dis_def bind_err_Inr)
      from pyo_Constraint_rule[OF cio0 car1] assms(5) sc
      have "Eq (V (Input t car)) (Num 0) \<in> set const_input_off"
        by (auto simp: emit_def)
      with cs0 sat_all_mem[OF s] show ?thesis by fastforce
    qed
    from p(1) False x_on x_off show ?thesis by blast
  qed
qed


subsection \<open>The off disjunct\<close>

lemma init_SUSD_trajectories_standby:
  "init_SUSD_trajectories
     (self\<lparr>time_independent := (time_independent self)\<lparr>standby_power := s\<rparr>,
           component_options := (component_options self)\<lparr>standby_power_carrier := c\<rparr>\<rparr>)
     b d bp su sd
   = init_SUSD_trajectories self b d bp su sd"
  by (intro ext)
     (simp add: init_SUSD_trajectories_def segment_on_def output_first_segment_def
        init_min_partload_def Let_def)

lemma type_4_standby_irrelevant:
  "performance_function_type_4
     (self\<lparr>time_independent := (time_independent self)\<lparr>standby_power := s\<rparr>,
           component_options := (component_options self)\<lparr>standby_power_carrier := c\<rparr>\<rparr>) b
   = performance_function_type_4 self b"
  by (simp add: performance_function_type_4_def init_SUSD_trajectories_standby Let_def)

text \<open>
  Claim C10. For performance function type 4 the off disjunct of every time step holds
  \<open>input[t, car] == 0\<close> for every input carrier, a standby carrier included, and
  \<open>output[t, car] == 0\<close> for every output carrier, so an assignment satisfying the
  disjunct has all of them zero. The standby power and its carrier have no effect on
  what type 4 builds. Types 2 and 3 differ: their off disjunct is the one that, with
  standby power configured, pins the input of the standby carrier.
\<close>

theorem type_4_off_ignores_standby:
  assumes "construct_tech_model self b dat = Inr b'"
      and "performance_function_type (component_options self) = 4"
      and "(t, ds) \<in> set (dis_SUSD_trajectory b')"
      and "(0, cs) \<in> set ds"
  shows "(\<forall>car\<in>set (set_input_carriers b). Eq (V (Input t car)) (Num 0) \<in> set cs) \<and>
         (\<forall>car\<in>set (set_output_carriers b). Eq (V (Output t car)) (Num 0) \<in> set cs) \<and>
         (\<forall>\<rho>. sat_all \<rho> cs \<longrightarrow>
            (\<forall>car\<in>set (set_input_carriers b). \<rho> (Input t car) = 0) \<and>
            (\<forall>car\<in>set (set_output_carriers b). \<rho> (Output t car) = 0)) \<and>
         performance_function_type_4
           (self\<lparr>time_independent := (time_independent self)\<lparr>standby_power := s\<rparr>,
                 component_options := (component_options self)\<lparr>standby_power_carrier := c\<rparr>\<rparr>) b
           = performance_function_type_4 self b \<and>
         init_input_output_2 self b alpha t 0 = disjunct_off self b t \<and>
         init_input_output_3 self b d bp t 0 = disjunct_off self b t \<and>
         (standby_power (time_independent self) \<noteq> - 1 \<and>
          main_input_carrier (component_options self) \<in> set (set_input_carriers b) \<longrightarrow>
            Eq (V (Input t (car_standby_power self)))
               (Mul (Mul (Num (standby_power (time_independent self))) (V Var_size))
                  (Num (rated_power self)))
              \<in> set (projr (disjunct_off self b t)))"
proof -
  from assms(1) obtain b1 where
    p: "performance_function self b = Inr b1" and
    f: "dis_SUSD_trajectory b' = dis_SUSD_trajectory b1"
    by (rule construct_frame)
  from performance_function_4[OF p assms(2)] obtain d' bp' su sd where
    g: "gdp_Disjunct (set_t_full self) (py_range 0 (su + sd + int (length bp')))
       (init_SUSD_trajectories self b d' bp' su sd) = Inr (dis_SUSD_trajectory b1)" by metis
  from assms(3) f have "(t, ds) \<in> set (dis_SUSD_trajectory b1)" by simp
  from gdp_Disjunct_disjunct[OF g this assms(4)]
  have off: "init_SUSD_trajectories self b d' bp' su sd t 0 = Inr cs" by simp
  note sub = init_SUSD_trajectories_off[OF off]
  have i: "\<forall>car\<in>set (set_input_carriers b). Eq (V (Input t car)) (Num 0) \<in> set cs"
    using sub(1) by auto
  have out: "\<forall>car\<in>set (set_output_carriers b). Eq (V (Output t car)) (Num 0) \<in> set cs"
    using sub(2) by auto
  have sem: "\<forall>\<rho>. sat_all \<rho> cs \<longrightarrow>
            (\<forall>car\<in>set (set_input_carriers b). \<rho> (Input t car) = 0) \<and>
            (\<forall>car\<in>set (set_output_carriers b). \<rho> (Output t car) = 0)"
  proof (intro allI impI conjI ballI)
    fix \<rho> car assume s: "sat_all \<rho> cs" and c: "car \<in> set (set_input_carriers b)"
    from i c have "Eq (V (Input t car)) (Num 0) \<in> set cs" by blast
    from sat_all_mem[OF s this] show "\<rho> (Input t car) = 0" by simp
  next
    fix \<rho> car assume s: "sat_all \<rho> cs" and c: "car \<in> set (set_output_carriers b)"
    from out c have "Eq (V (Output t car)) (Num 0) \<in> set cs" by blast
    from sat_all_mem[OF s this] show "\<rho> (Output t car) = 0" by simp
  qed
  have two: "init_input_output_2 self b alpha t 0 = disjunct_off self b t"
    by (simp add: init_input_output_2_def)
  have three: "init_input_output_3 self b d bp t 0 = disjunct_off self b t"
    by (simp add: init_input_output_3_def)
  have pin: "standby_power (time_independent self) \<noteq> - 1 \<and>
          main_input_carrier (component_options self) \<in> set (set_input_carriers b) \<longrightarrow>
            Eq (V (Input t (car_standby_power self)))
               (Mul (Mul (Num (standby_power (time_independent self))) (V Var_size))
                  (Num (rated_power self)))
              \<in> set (projr (disjunct_off self b t))"
    by (auto simp: disjunct_off_eq image_iff)
  from i out sem type_4_standby_irrelevant two three pin show ?thesis by blast
qed


lemma disjunct_of_mem:
  assumes "disjunct_of djs t ind = cs" "cs \<noteq> []"
  shows "\<exists>ds. (t, ds) \<in> set djs \<and> (ind, cs) \<in> set ds"
  using assms
  by (auto simp: disjunct_of_def split: option.splits dest!: map_of_SomeD)

lemma trajectory_boiler_off:
  "disjunct_of (dis_SUSD_trajectory trajectory_boiler_model) 1 0 =
     [Eq (V (Var_x 1)) (Num 0), Eq (V (Var_y 2)) (Num 0), Eq (V (Var_z 1)) (Num 0),
      Eq (V (Input 1 ''gas'')) (Num 0), Eq (V (Input 1 ''electricity'')) (Num 0),
      Eq (V (Output 1 ''heat'')) (Num 0)]"
  by (simp add: trajectory_boiler_model_def disjunct_of_def)

theorem type_4_off_ignores_standby_witness:
  "construct_tech_model trajectory_boiler boiler_block no_typical_days = Inr trajectory_boiler_model \<and>
   performance_function_type (component_options trajectory_boiler) = 4 \<and>
   standby_power (time_independent trajectory_boiler) = 1 / 10 \<and>
   Eq (V (Input 1 ''gas'')) (Num 0)
     \<in> set (disjunct_of (dis_SUSD_trajectory trajectory_boiler_model) 1 0) \<and>
   Eq (V (Input 1 ''electricity'')) (Num 0)
     \<in> set (disjunct_of (dis_SUSD_trajectory trajectory_boiler_model) 1 0) \<and>
   sat_all stopped (disjunct_of (dis_SUSD_trajectory trajectory_boiler_model) 1 0) \<and>
   stopped (Input 1 ''gas'') = 0 \<and> stopped (Output 1 ''heat'') = 0"
proof -
  let ?cs = "disjunct_of (dis_SUSD_trajectory trajectory_boiler_model) 1 0"
  have p: "performance_function_type (component_options trajectory_boiler) = 4"
    and s: "standby_power (time_independent trajectory_boiler) = 1 / 10"
    by (simp_all add: trajectory_boiler_def boiler_options_def boiler_coeff_def)
  have "?cs \<noteq> []" by (simp add: trajectory_boiler_off)
  from disjunct_of_mem[OF refl this] obtain ds where
    m: "(1, ds) \<in> set (dis_SUSD_trajectory trajectory_boiler_model)" "(0, ?cs) \<in> set ds"
    by blast
  have sat: "sat_all stopped ?cs"
    by (simp add: trajectory_boiler_off sat_all_def stopped_def)
  have c: "set_input_carriers boiler_block = [''gas'', ''electricity'']"
    "set_output_carriers boiler_block = [''heat'']"
    by (simp_all add: boiler_block_def)
  from type_4_off_ignores_standby [OF trajectory_boiler_construct p m] sat
  have "Eq (V (Input 1 ''gas'')) (Num 0) \<in> set ?cs"
       "Eq (V (Input 1 ''electricity'')) (Num 0) \<in> set ?cs"
       "stopped (Input 1 ''gas'') = 0" "stopped (Output 1 ''heat'') = 0"
    by (simp_all add: c)
  with trajectory_boiler_construct p s sat show ?thesis by simp
qed










end
